theory Spec2Isabelle
  imports Main "HOL-Library.AList"
begin


section \<open>Python values, strings and dictionaries\<close>

text \<open>
  The interface subsystem of \<^verbatim>\<open>smc/core/interfaces.py\<close> works on the JSON snapshot of
  an engine: dictionaries with string keys whose leaves are \<^verbatim>\<open>None\<close>, booleans,
  integers and strings. A dictionary is an association list in insertion order.
\<close>

datatype pyval = PNone | PBool bool | PInt int | PStr string

datatype error =
    EngineCommandFailed string
  | UpdateElementFailed string
  | AttributeError
  | IndexError
  | KeyError string
  | TypeError
  | ValueError

type_synonym fields = "(string \<times> pyval) list"

text \<open>Truth value of a Python object in a condition (\<^verbatim>\<open>if x:\<close>).\<close>

fun truthy :: "pyval \<Rightarrow> bool" where
  "truthy PNone = False"
| "truthy (PBool b) = b"
| "truthy (PInt i) = (i \<noteq> 0)"
| "truthy (PStr s) = (s \<noteq> [])"

text \<open>\<^verbatim>\<open>str(x)\<close>, also what \<^verbatim>\<open>'{}'.format(x)\<close> and \<^verbatim>\<open>'%s' % x\<close> print.\<close>

definition digit :: "nat \<Rightarrow> char" where
  "digit n = ''0123456789'' ! n"

function str_nat :: "nat \<Rightarrow> string" where
  "str_nat n = (if n < 10 then [digit n] else str_nat (n div 10) @ [digit (n mod 10)])"
  by pat_completeness auto
termination
  by (relation "measure id") auto

declare str_nat.simps [simp del]

definition str_int :: "int \<Rightarrow> string" where
  "str_int i = (if i < 0 then CHR ''-'' # str_nat (nat (- i)) else str_nat (nat i))"

fun py_str :: "pyval \<Rightarrow> string" where
  "py_str PNone = ''None''"
| "py_str (PBool b) = (if b then ''True'' else ''False'')"
| "py_str (PInt i) = str_int i"
| "py_str (PStr s) = s"

text \<open>\<^verbatim>\<open>s.split(c)\<close> for a one-character separator.\<close>

fun py_split :: "char \<Rightarrow> string \<Rightarrow> string list" where
  "py_split c [] = [[]]"
| "py_split c (x # xs) =
     (if x = c then [] # py_split c xs
      else (case py_split c xs of
              [] \<Rightarrow> [[x]]
            | w # ws \<Rightarrow> (x # w) # ws))"

text \<open>
  Reading and writing an attribute of a sub-interface. The sub-interface classes live
  in \<^verbatim>\<open>smc.core.sub_interfaces\<close>; what the code here relies on is that an attribute
  the wrapped JSON fragment does not carry reads as \<^verbatim>\<open>None\<close> (\<^verbatim>\<open>set_unset\<close>
  tests \<^verbatim>\<open>getattr(sub_interface, attribute) is not None\<close>) and that an assignment
  lands in the wrapped fragment.
\<close>

definition getattr :: "fields \<Rightarrow> string \<Rightarrow> pyval" where
  "getattr v k = (case map_of v k of None \<Rightarrow> PNone | Some x \<Rightarrow> x)"

definition setattr :: "fields \<Rightarrow> string \<Rightarrow> pyval \<Rightarrow> fields" where
  "setattr v k x = AList.update k x v"

section \<open>The interface tree\<close>

text \<open>
  An entry of an \<^verbatim>\<open>interfaces\<close> array is a dictionary \<^verbatim>\<open>{type_tag: fields}\<close>. The
  model keeps the key in decoded form, as the variant \<^verbatim>\<open>get_sub_interface\<close> maps
  the tag to; an entry is the list of its items. Loopback variants are not part of a
  physical interface's array.
\<close>

datatype subif_class =
    SingleNodeInterface
  | NodeInterface
  | ClusterVirtualInterface
  | InlineInterface
  | InlineL2FWInterface
  | InlineIPSInterface
  | CaptureInterface

text \<open>The top-level classes, each standing for its \<^verbatim>\<open>typeof\<close> tag.\<close>

datatype iface_class =
    PhysicalInterface
  | TunnelInterface
  | VirtualPhysicalInterface
  | PhysicalVlanInterface

text \<open>
  The dictionary of a top-level interface or of a VLAN below it. A key that is absent is
  \<open>None\<close>; \<open>d_other\<close> holds the keys the code never names.
\<close>

datatype ifdata = IfData
  (d_interface_id: "pyval option")
  (d_name: "pyval option")
  (d_link: "fields list option")
  (d_zone_ref: "pyval option")
  (d_interfaces: "(subif_class \<times> fields) list list option")
  (d_vlanInterfaces: "ifdata list option")
  (d_other: fields)

text \<open>What \<^verbatim>\<open>Interface.sub_interfaces\<close> hands out: a wrapped sub-interface fragment, or a
  \<^verbatim>\<open>PhysicalVlanInterface(parent, data)\<close> for a VLAN that has no address. The parent is
  only used by \<^verbatim>\<open>delete\<close> and is left out.\<close>

datatype sub = Sub subif_class fields | Vlan ifdata

text \<open>
  An interface object as \<^verbatim>\<open>byEngine\<close> makes it, the engine (its \<^verbatim>\<open>type\<close> and the
  \<^verbatim>\<open>physicalInterfaces\<close> array of its \<^verbatim>\<open>data\<close>, whose entries are dictionaries
  \<^verbatim>\<open>{typeof: data}\<close>), and an \<^verbatim>\<open>InterfaceModifier\<close> with its \<^verbatim>\<open>_data\<close> and its
  \<^verbatim>\<open>engine\<close>.
\<close>

record interface =
  name :: pyval
  typeof :: iface_class
  href :: pyval
  data :: ifdata

record engine =
  etype :: string
  physicalInterfaces :: "(iface_class \<times> ifdata) list list option"

record modifier =
  ifaces :: "interface list"
  engine :: engine

text \<open>Running a list of steps that may raise: the first error ends the run.\<close>

fun collect :: "(error + 'a list) list \<Rightarrow> error + 'a list" where
  "collect [] = Inr []"
| "collect (r # rs) =
     (case r of
        Inl e \<Rightarrow> Inl e
      | Inr xs \<Rightarrow> (case collect rs of Inl e \<Rightarrow> Inl e | Inr ys \<Rightarrow> Inr (xs @ ys)))"

fun sequence :: "(error + 'a) list \<Rightarrow> error + 'a list" where
  "sequence [] = Inr []"
| "sequence (r # rs) =
     (case r of
        Inl e \<Rightarrow> Inl e
      | Inr y \<Rightarrow> (case sequence rs of Inl e \<Rightarrow> Inl e | Inr ys \<Rightarrow> Inr (y # ys)))"

text \<open>\<^verbatim>\<open>Interface.sub_interfaces\<close>: the nested function \<^verbatim>\<open>inner\<close>, then the method.\<close>

fun inner :: "iface_class \<Rightarrow> ifdata \<Rightarrow> error + sub list" where
  "inner ty (IfData iid nm lk z ifs vl oth) =
     (case ifs of
        Some (e # es) \<Rightarrow> Inr (map (\<lambda>(t, v). Sub t v) (concat (e # es)))
      | _ \<Rightarrow>
        (case vl of
           Some (v # vs) \<Rightarrow> collect (map (inner ty) (v # vs))
         | _ \<Rightarrow>
           (if ty \<noteq> TunnelInterface then
              (case iid of
                 Some (PStr s) \<Rightarrow>
                   if CHR ''.'' \<in> set s then Inr [Vlan (IfData iid nm lk z ifs vl oth)]
                   else Inr []
               | _ \<Rightarrow> Inl TypeError)
            else Inr [])))"

definition sub_interfaces :: "interface \<Rightarrow> error + sub list" where
  "sub_interfaces i = inner (typeof i) (data i)"


section \<open>InterfaceModifier: the sweeps\<close>

text \<open>
  \<^verbatim>\<open>set_unset\<close> and \<^verbatim>\<open>set_auth_request\<close> walk the wrappers of
  \<^verbatim>\<open>sub_interfaces()\<close> and assign through them. Each wrapper aliases one fragment of
  the tree, so the walk is a traversal of the tree in the order of \<^verbatim>\<open>inner\<close>:
  \<open>f\<close> is the loop body on a sub-interface fragment, \<open>g\<close> the loop body on a
  \<^verbatim>\<open>PhysicalVlanInterface\<close>, whose \<^verbatim>\<open>data\<close> is a copy
  (\<^verbatim>\<open>SimpleElement(**data)\<close>), so that nothing it does reaches the tree.
\<close>

definition on_entry ::
  "(subif_class \<Rightarrow> fields \<Rightarrow> error + fields) \<Rightarrow> subif_class \<times> fields \<Rightarrow> error + subif_class \<times> fields" where
  "on_entry f tv = (case f (fst tv) (snd tv) of Inl x \<Rightarrow> Inl x | Inr v' \<Rightarrow> Inr (fst tv, v'))"

fun sweep ::
  "(subif_class \<Rightarrow> fields \<Rightarrow> error + fields) \<Rightarrow> (ifdata \<Rightarrow> error + unit) \<Rightarrow>
   iface_class \<Rightarrow> ifdata \<Rightarrow> error + ifdata" where
  "sweep f g ty (IfData iid nm lk z ifs vl oth) =
     (case ifs of
        Some (e # es) \<Rightarrow>
          (case sequence (map (\<lambda>en. sequence (map (on_entry f) en)) (e # es)) of
             Inl x \<Rightarrow> Inl x
           | Inr ifs' \<Rightarrow> Inr (IfData iid nm lk z (Some ifs') vl oth))
      | _ \<Rightarrow>
        (case vl of
           Some (v # vs) \<Rightarrow>
             (case sequence (map (sweep f g ty) (v # vs)) of
                Inl x \<Rightarrow> Inl x
              | Inr vl' \<Rightarrow> Inr (IfData iid nm lk z ifs (Some vl') oth))
         | _ \<Rightarrow>
           (if ty \<noteq> TunnelInterface then
              (case iid of
                 Some (PStr s) \<Rightarrow>
                   if CHR ''.'' \<in> set s then
                     (case g (IfData iid nm lk z ifs vl oth) of
                        Inl x \<Rightarrow> Inl x
                      | Inr u \<Rightarrow> Inr (IfData iid nm lk z ifs vl oth))
                   else Inr (IfData iid nm lk z ifs vl oth)
               | _ \<Rightarrow> Inl TypeError)
            else Inr (IfData iid nm lk z ifs vl oth))))"

text \<open>The loop over the wrappers of one interface, and the same loop together with the
  call of \<^verbatim>\<open>sub_interfaces()\<close> that runs before it.\<close>

definition assign_through ::
  "(subif_class \<Rightarrow> fields \<Rightarrow> error + fields) \<Rightarrow> (ifdata \<Rightarrow> error + unit) \<Rightarrow>
   interface \<Rightarrow> error + interface" where
  "assign_through f g i =
     (case sweep f g (typeof i) (data i) of
        Inl x \<Rightarrow> Inl x
      | Inr d' \<Rightarrow> Inr (i\<lparr>data := d'\<rparr>))"

definition sweep_interface ::
  "(subif_class \<Rightarrow> fields \<Rightarrow> error + fields) \<Rightarrow> (ifdata \<Rightarrow> error + unit) \<Rightarrow>
   interface \<Rightarrow> error + interface" where
  "sweep_interface f g i =
     (case sub_interfaces i of
        Inl x \<Rightarrow> Inl x
      | Inr all_subs \<Rightarrow> assign_through f g i)"

text \<open>
  \<^verbatim>\<open>InterfaceModifier.set_unset(interface_id, attribute, address=None)\<close>. The test
  \<^verbatim>\<open>ipaddress.ip_address(address) in ipaddress.ip_network(network_value)\<close> is the
  standard library's; it is the parameter \<open>in_network\<close>, which may raise. An
  argument left out is \<^verbatim>\<open>None\<close>.
\<close>

definition set_unset_sub ::
  "(pyval \<Rightarrow> pyval \<Rightarrow> error + bool) \<Rightarrow> pyval \<Rightarrow> string \<Rightarrow> pyval \<Rightarrow>
   subif_class \<Rightarrow> fields \<Rightarrow> error + fields" where
  "set_unset_sub in_network interface_id attribute address c v =
     (if getattr v attribute \<noteq> PNone then
        if getattr v ''nicid'' = PStr (py_str interface_id) then
          if address \<noteq> PNone then
            (case in_network address (getattr v ''network_value'') of
               Inl x \<Rightarrow> Inl x
             | Inr b \<Rightarrow> Inr (setattr v attribute (PBool b)))
          else Inr (setattr v attribute (PBool True))
        else Inr (setattr v attribute (PBool False))
      else Inr v)"

definition skip_vlan :: "ifdata \<Rightarrow> error + unit" where
  "skip_vlan d = Inr ()"

definition set_unset ::
  "(pyval \<Rightarrow> pyval \<Rightarrow> error + bool) \<Rightarrow> pyval \<Rightarrow> string \<Rightarrow> pyval \<Rightarrow>
   modifier \<Rightarrow> error + modifier" where
  "set_unset in_network interface_id attribute address m =
     (case sequence (map (sweep_interface
               (set_unset_sub in_network interface_id attribute address) skip_vlan) (ifaces m)) of
        Inl x \<Rightarrow> Inl x
      | Inr is \<Rightarrow> Inr (m\<lparr>ifaces := is\<rparr>))"

text \<open>
  Modelled from the spec: the class hierarchy of \<^verbatim>\<open>smc.core.sub_interfaces\<close>, which
  is not among these sources. The three inline variants are one family (a bridged pair
  without address), \<^verbatim>\<open>InlineL2FWInterface\<close> and \<^verbatim>\<open>InlineIPSInterface\<close> being
  kinds of \<^verbatim>\<open>InlineInterface\<close>; every other variant is an instance of its own class
  only.
\<close>

definition isinstance :: "subif_class \<Rightarrow> subif_class \<Rightarrow> bool" where
  "isinstance c k =
     (c = k \<or> (k = InlineInterface \<and> (c = InlineL2FWInterface \<or> c = InlineIPSInterface)))"




fun py_eq :: "pyval \<Rightarrow> pyval \<Rightarrow> bool" where
  "py_eq (PBool b) (PInt i) = ((if b then 1 else 0) = i)"
| "py_eq (PInt i) (PBool b) = (i = (if b then 1 else 0))"
| "py_eq x y = (x = y)"







subsection \<open>What a sweep leaves behind\<close>

text \<open>
  The reference the sweeps are compared with: \<open>on_sub h\<close> changes the fragment of a
  wrapper by \<open>h\<close> and leaves a \<^verbatim>\<open>PhysicalVlanInterface\<close> alone; \<open>swept_data h\<close>
  is the tree in which every fragment that \<^verbatim>\<open>sub_interfaces()\<close> reaches is changed
  by \<open>h\<close>.
\<close>

fun on_sub :: "(subif_class \<Rightarrow> fields \<Rightarrow> fields) \<Rightarrow> sub \<Rightarrow> sub" where
  "on_sub h (Sub c v) = Sub c (h c v)"
| "on_sub h (Vlan d) = Vlan d"

fun swept_data :: "(subif_class \<Rightarrow> fields \<Rightarrow> fields) \<Rightarrow> ifdata \<Rightarrow> ifdata" where
  "swept_data h (IfData iid nm lk z ifs vl oth) =
     (case ifs of
        Some (e # es) \<Rightarrow>
          IfData iid nm lk z (Some (map (map (\<lambda>tv. (fst tv, h (fst tv) (snd tv)))) (e # es))) vl oth
      | _ \<Rightarrow>
        (case vl of
           Some (v # vs) \<Rightarrow> IfData iid nm lk z ifs (Some (map (swept_data h) (v # vs))) oth
         | _ \<Rightarrow> IfData iid nm lk z ifs vl oth))"

section \<open>InterfaceModifier: reading and writing the engine snapshot\<close>

text \<open>\<^verbatim>\<open>extract_sub_interface(data)\<close>: the first sub-interface of the array, or
  \<^verbatim>\<open>None\<close> when there is none; \<^verbatim>\<open>data['interfaces']\<close> raises on a missing key.\<close>

definition extract_sub_interface :: "ifdata \<Rightarrow> error + (subif_class \<times> fields) option" where
  "extract_sub_interface d =
     (case d_interfaces d of
        None \<Rightarrow> Inl (KeyError ''interfaces'')
      | Some ifs \<Rightarrow> (case concat ifs of [] \<Rightarrow> Inr None | tv # rest \<Rightarrow> Inr (Some tv)))"

text \<open>\<^verbatim>\<open>InterfaceModifier.href_from_link(link)\<close>; a missing \<^verbatim>\<open>link\<close> cannot be
  iterated.\<close>

fun first_href :: "fields list \<Rightarrow> pyval" where
  "first_href [] = PNone"
| "first_href (links # rest) =
     (if truthy (getattr links ''href'') then getattr links ''href'' else first_href rest)"

definition href_from_link :: "fields list option \<Rightarrow> error + pyval" where
  "href_from_link link = (case link of None \<Rightarrow> Inl TypeError | Some ls \<Rightarrow> Inr (first_href ls))"

text \<open>The name \<^verbatim>\<open>byEngine\<close> gives an interface: the one of the snapshot, else a
  default made from the ids.\<close>

definition default_name :: "ifdata \<Rightarrow> (subif_class \<times> fields) option \<Rightarrow> error + pyval" where
  "default_name d subif_type =
     (case subif_type of
        Some (c, v) \<Rightarrow>
          if isinstance c InlineInterface then
            (case getattr v ''nicid'' of
               PStr s \<Rightarrow>
                 (case d_name d of
                    Some n \<Rightarrow> Inr n
                  | None \<Rightarrow>
                      (case py_split CHR ''-'' s of
                         a # b # rest \<Rightarrow>
                           Inr (PStr (''Interface '' @ a @ '' - Interface '' @ b @ '' (Inline)''))
                       | _ \<Rightarrow> Inl IndexError))
             | _ \<Rightarrow> Inl AttributeError)
          else
            (case d_name d of
               Some n \<Rightarrow> Inr n
             | None \<Rightarrow>
                 Inr (PStr (''Interface '' @
                        py_str (case d_interface_id d of None \<Rightarrow> PNone | Some x \<Rightarrow> x))))
      | None \<Rightarrow>
          (case d_name d of
             Some n \<Rightarrow> Inr n
           | None \<Rightarrow>
               Inr (PStr (''Interface '' @
                      py_str (case d_interface_id d of None \<Rightarrow> PNone | Some x \<Rightarrow> x)))))"

text \<open>
  The body of the loops of \<^verbatim>\<open>byEngine\<close> for one item \<^verbatim>\<open>typeof, data\<close>. The class
  is looked up by \<^verbatim>\<open>lookup_class\<close> of \<^verbatim>\<open>smc.base.model\<close> under the tag and carries
  the tag as its \<^verbatim>\<open>typeof\<close>; \<^verbatim>\<open>SimpleElement(**data)\<close> wraps the dictionary.
\<close>

definition make_interface :: "iface_class \<times> ifdata \<Rightarrow> error + interface" where
  "make_interface td =
     (case extract_sub_interface (snd td) of
        Inl x \<Rightarrow> Inl x
      | Inr subif_type \<Rightarrow>
          (case default_name (snd td) subif_type of
             Inl x \<Rightarrow> Inl x
           | Inr n \<Rightarrow>
               (case href_from_link (d_link (snd td)) of
                  Inl x \<Rightarrow> Inl x
                | Inr h \<Rightarrow> Inr \<lparr>name = n, typeof = fst td, href = h, data = snd td\<rparr>)))"

text \<open>\<^verbatim>\<open>InterfaceModifier.byEngine(engine)\<close>.\<close>

definition byEngine :: "engine \<Rightarrow> error + modifier" where
  "byEngine e =
     (case physicalInterfaces e of
        None \<Rightarrow> Inl TypeError
      | Some intfs \<Rightarrow>
          (case sequence (map make_interface (concat intfs)) of
             Inl x \<Rightarrow> Inl x
           | Inr interfaces \<Rightarrow> Inr \<lparr>ifaces = interfaces, engine = e\<rparr>))"

text \<open>The property \<^verbatim>\<open>InterfaceModifier.data\<close>: it writes the array back into the
  engine's dictionary and returns that dictionary.\<close>

definition modifier_data :: "modifier \<Rightarrow> engine" where
  "modifier_data m =
     (engine m)\<lparr>physicalInterfaces := Some (map (\<lambda>intf. [(typeof intf, data intf)]) (ifaces m))\<rparr>"

subsection \<open>\<^verbatim>\<open>InterfaceModifier.get\<close>\<close>

text \<open>One turn of the inner loop of \<^verbatim>\<open>get\<close>: whether \<^verbatim>\<open>intf_found\<close> is set by this
  sub-interface. \<^verbatim>\<open>'-' in nicid\<close> raises unless the nicid is a string.\<close>

definition id_of :: "ifdata \<Rightarrow> pyval" where
  "id_of d = (case d_interface_id d of None \<Rightarrow> PNone | Some x \<Rightarrow> x)"

fun get_match :: "pyval \<Rightarrow> interface \<Rightarrow> sub \<Rightarrow> error + bool" where
  "get_match interface_id intf (Vlan d) =
     (case py_split CHR ''.'' (py_str (id_of d)) of
        [] \<Rightarrow> Inl IndexError
      | w # ws \<Rightarrow> Inr (w = py_str interface_id))"
| "get_match interface_id intf (Sub c v) =
     (case getattr v ''nicid'' of
        PStr nicid \<Rightarrow>
          Inr ((CHR ''-'' \<in> set nicid \<and> py_str interface_id \<in> set (py_split CHR ''-'' nicid)) \<or>
               (CHR ''.'' \<in> set nicid \<and> PStr (py_str interface_id) = id_of (data intf)) \<or>
               py_str interface_id = nicid)
      | _ \<Rightarrow> Inl TypeError)"

fun get_scan :: "pyval \<Rightarrow> interface \<Rightarrow> sub list \<Rightarrow> error + bool" where
  "get_scan interface_id intf [] = Inr False"
| "get_scan interface_id intf (s # rest) =
     (case get_match interface_id intf s of
        Inl x \<Rightarrow> Inl x
      | Inr found \<Rightarrow> if found then Inr True else get_scan interface_id intf rest)"

definition get_here :: "pyval \<Rightarrow> interface \<Rightarrow> error + bool" where
  "get_here interface_id intf =
     (case sub_interfaces intf of
        Inl x \<Rightarrow> Inl x
      | Inr all_subs \<Rightarrow>
          if all_subs \<noteq> [] then get_scan interface_id intf all_subs
          else Inr (id_of (data intf) = PStr (py_str interface_id)))"

fun get_from :: "pyval \<Rightarrow> interface list \<Rightarrow> error + interface" where
  "get_from interface_id [] =
     Inl (EngineCommandFailed
            (''Interface id '' @ py_str interface_id @ '' was not found on this engine.''))"
| "get_from interface_id (intf # rest) =
     (case get_here interface_id intf of
        Inl x \<Rightarrow> Inl x
      | Inr found \<Rightarrow> if found then Inr intf else get_from interface_id rest)"

definition get :: "modifier \<Rightarrow> pyval \<Rightarrow> error + interface" where
  "get m interface_id = get_from interface_id (ifaces m)"

section \<open>InterfaceBuilder\<close>

text \<open>
  A builder is the dictionary of its attributes (\<^verbatim>\<open>vars(self)\<close> is its \<^verbatim>\<open>data\<close>), the
  same shape as the dictionary of an interface. Reading an attribute that was never set
  raises \<^verbatim>\<open>AttributeError\<close>.
\<close>

fun set_interface_id :: "pyval option \<Rightarrow> ifdata \<Rightarrow> ifdata" where
  "set_interface_id x (IfData iid nm lk z ifs vl oth) = IfData x nm lk z ifs vl oth"

fun set_zone_ref :: "pyval option \<Rightarrow> ifdata \<Rightarrow> ifdata" where
  "set_zone_ref x (IfData iid nm lk z ifs vl oth) = IfData iid nm lk x ifs vl oth"

fun set_interfaces :: "(subif_class \<times> fields) list list option \<Rightarrow> ifdata \<Rightarrow> ifdata" where
  "set_interfaces x (IfData iid nm lk z ifs vl oth) = IfData iid nm lk z x vl oth"

fun set_vlanInterfaces :: "ifdata list option \<Rightarrow> ifdata \<Rightarrow> ifdata" where
  "set_vlanInterfaces x (IfData iid nm lk z ifs vl oth) = IfData iid nm lk z ifs x oth"

definition empty_dict :: ifdata where
  "empty_dict = IfData None None None None None None []"

text \<open>\<^verbatim>\<open>InterfaceBuilder.__init__(cls=PhysicalInterface, **kw)\<close>.\<close>

definition InterfaceBuilder :: "iface_class \<Rightarrow> ifdata \<Rightarrow> ifdata" where
  "InterfaceBuilder cls kw =
     (if kw \<noteq> empty_dict then kw
      else if cls = PhysicalInterface
        then IfData (Some PNone) None None (Some PNone) (Some []) (Some []) []
        else IfData (Some PNone) None None None (Some []) None [])"

text \<open>
  The collaborators that are not among these sources: the \<^verbatim>\<open>create\<close> factories and
  \<^verbatim>\<open>_add_vlan_to_inline\<close> of \<^verbatim>\<open>smc.core.sub_interfaces\<close>, and \<^verbatim>\<open>zone_helper\<close> and
  \<^verbatim>\<open>logical_intf_helper\<close> of \<^verbatim>\<open>smc.elements.helpers\<close>. A factory is called with a
  variant, positional arguments and keyword arguments and gives the fragment of the new
  sub-interface.
\<close>

record helpers =
  create :: "subif_class \<Rightarrow> pyval list \<Rightarrow> fields \<Rightarrow> fields"
  add_vlan_to_inline :: "(subif_class \<times> fields) list \<Rightarrow> pyval \<Rightarrow> pyval \<Rightarrow> (subif_class \<times> fields) list"
  zone_helper :: "pyval \<Rightarrow> pyval"
  logical_intf_helper :: "pyval \<Rightarrow> pyval"

text \<open>\<^verbatim>\<open>PhysicalVlanInterface.create(interface_id, vlan_id, virtual_mapping=None,
  virtual_resource_name=None, zone_ref=None, **kwargs)\<close>; \<open>interface\<close> is the
  \<^verbatim>\<open>data\<close> of the keyword argument \<^verbatim>\<open>interface\<close>, if one is passed.\<close>

definition vlan_create ::
  "helpers \<Rightarrow> pyval \<Rightarrow> pyval \<Rightarrow> pyval \<Rightarrow> pyval \<Rightarrow> pyval \<Rightarrow> (subif_class \<times> fields) list option \<Rightarrow> ifdata" where
  "vlan_create H interface_id vlan_id virtual_mapping virtual_resource_name zone_ref_arg interface =
     IfData (Some (PStr (py_str interface_id @ ''.'' @ py_str vlan_id))) None None
       (Some (zone_helper H zone_ref_arg))
       (Some (case interface of None \<Rightarrow> [] | Some en \<Rightarrow> [en]))
       None
       [(''virtual_mapping'', virtual_mapping), (''virtual_resource_name'', virtual_resource_name)]"

text \<open>\<^verbatim>\<open>add_cvi_only(address, network_value, is_mgmt=False)\<close>.\<close>

definition add_cvi_only :: "helpers \<Rightarrow> pyval \<Rightarrow> pyval \<Rightarrow> bool \<Rightarrow> ifdata \<Rightarrow> error + ifdata" where
  "add_cvi_only H address network_value is_mgmt b =
     (case d_interface_id b of
        None \<Rightarrow> Inl AttributeError
      | Some iid \<Rightarrow>
          (let cvi = create H ClusterVirtualInterface [iid, address, network_value] [];
               cvi = (if is_mgmt then setattr cvi ''auth_request'' (PBool True) else cvi)
           in case d_interfaces b of
                None \<Rightarrow> Inl AttributeError
              | Some ifs \<Rightarrow> Inr (set_interfaces (Some (ifs @ [[(ClusterVirtualInterface, cvi)]])) b)))"

text \<open>\<^verbatim>\<open>add_sni_only(address, network_value, is_mgmt=False, **kw)\<close>.\<close>

definition add_sni_only ::
  "helpers \<Rightarrow> pyval \<Rightarrow> pyval \<Rightarrow> bool \<Rightarrow> fields \<Rightarrow> ifdata \<Rightarrow> error + ifdata" where
  "add_sni_only H address network_value is_mgmt kw b =
     (case d_interface_id b of
        None \<Rightarrow> Inl AttributeError
      | Some iid \<Rightarrow>
          (let sni = create H SingleNodeInterface [iid, address, network_value] kw;
               sni = (if is_mgmt
                      then setattr (setattr (setattr sni ''auth_request'' (PBool True))
                                      ''outgoing'' (PBool True)) ''primary_mgt'' (PBool True)
                      else sni)
           in case d_interfaces b of
                Some ifs \<Rightarrow> Inr (set_interfaces (Some (ifs @ [[(SingleNodeInterface, sni)]])) b)
              | None \<Rightarrow> Inr (set_interfaces (Some [[(SingleNodeInterface, sni)]]) b)))"

text \<open>\<^verbatim>\<open>add_ndi_only(address, network_value, nodeid=1, is_mgmt=False, **kw)\<close>; the factory
  is called with keyword arguments only.\<close>

definition add_ndi_only ::
  "helpers \<Rightarrow> pyval \<Rightarrow> pyval \<Rightarrow> pyval \<Rightarrow> bool \<Rightarrow> fields \<Rightarrow> ifdata \<Rightarrow> error + ifdata" where
  "add_ndi_only H address network_value nodeid is_mgmt kw b =
     (case d_interface_id b of
        None \<Rightarrow> Inl AttributeError
      | Some iid \<Rightarrow>
          (let ndi = create H NodeInterface []
                       ([(''interface_id'', iid), (''address'', address),
                         (''network_value'', network_value), (''nodeid'', nodeid)] @ kw);
               ndi = (if is_mgmt
                      then setattr (setattr (setattr ndi ''primary_mgt'' (PBool True))
                                      ''outgoing'' (PBool True)) ''primary_heartbeat'' (PBool True)
                      else ndi)
           in case d_interfaces b of
                None \<Rightarrow> Inl AttributeError
              | Some ifs \<Rightarrow> Inr (set_interfaces (Some (ifs @ [[(NodeInterface, ndi)]])) b)))"

text \<open>\<^verbatim>\<open>remove_vlan(vlan_id)\<close>.\<close>

definition remove_vlan :: "pyval \<Rightarrow> ifdata \<Rightarrow> error + ifdata" where
  "remove_vlan vlan_id b =
     (case d_interface_id b of
        None \<Rightarrow> Inl AttributeError
      | Some iid \<Rightarrow>
          (let vlan_str = py_str iid @ ''.'' @ py_str vlan_id
           in case d_vlanInterfaces b of
                None \<Rightarrow> Inl AttributeError
              | Some vls \<Rightarrow>
                  Inr (set_vlanInterfaces
                         (Some (filter (\<lambda>vlan. \<not> (id_of vlan = PStr vlan_str)) vls)) b)))"

text \<open>
  \<^verbatim>\<open>add_l2_inline(interface_id, logical_interface_ref, vlan_id=None, vlan_id2=None,
  zone_ref_intf1=None, zone_ref_intf2=None, if_type=InlineInterface, **kw)\<close>, in its two
  halves: the base pair when the builder has no sub-interface yet, then the VLAN.
\<close>

definition l2_inline_base ::
  "helpers \<Rightarrow> pyval \<Rightarrow> pyval \<Rightarrow> pyval \<Rightarrow> pyval \<Rightarrow> subif_class \<Rightarrow> fields \<Rightarrow> ifdata \<Rightarrow> error + ifdata" where
  "l2_inline_base H interface_id logical_interface_ref vlan_id zone_ref_intf2 if_type kw b =
     (case d_interfaces b of
        None \<Rightarrow> Inl AttributeError
      | Some ifs \<Rightarrow>
          if ifs = [] then
            (let inline = create H if_type [interface_id]
                            [(''logical_interface_ref'', logical_interface_ref)];
                 inline = (if \<not> truthy vlan_id
                           then setattr inline ''zone_ref'' (zone_helper H zone_ref_intf2)
                           else inline);
                 inline = (if if_type \<noteq> InlineL2FWInterface
                           then setattr inline ''failure_mode''
                                  (case map_of kw ''failure_mode'' of
                                     None \<Rightarrow> PStr ''normal'' | Some x \<Rightarrow> x)
                           else inline)
             in Inr (set_interfaces (Some (ifs @ [[(if_type, inline)]])) b))
          else Inr b)"

text \<open>\<^verbatim>\<open>x.get('interfaces').append(entry)\<close> and \<^verbatim>\<open>self.vlanInterfaces.append(vlan)\<close>.\<close>

definition append_interface :: "(subif_class \<times> fields) list \<Rightarrow> ifdata \<Rightarrow> error + ifdata" where
  "append_interface en d =
     (case d_interfaces d of
        None \<Rightarrow> Inl AttributeError
      | Some ifs \<Rightarrow> Inr (set_interfaces (Some (ifs @ [en])) d))"

definition append_vlan :: "ifdata \<Rightarrow> ifdata \<Rightarrow> error + ifdata" where
  "append_vlan vlan b =
     (case d_vlanInterfaces b of
        None \<Rightarrow> Inl AttributeError
      | Some vls \<Rightarrow> Inr (set_vlanInterfaces (Some (vls @ [vlan])) b))"

text \<open>
  Modelled from the spec: the wire type tag \<^verbatim>\<open>typeof\<close> of each variant of
  \<^verbatim>\<open>smc.core.sub_interfaces\<close>, which is not among these sources. It is the key under
  which an entry of an \<^verbatim>\<open>interfaces\<close> array holds the fields of that variant.
\<close>

fun typeof_tag :: "subif_class \<Rightarrow> string" where
  "typeof_tag SingleNodeInterface = ''single_node_interface''"
| "typeof_tag NodeInterface = ''node_interface''"
| "typeof_tag ClusterVirtualInterface = ''cluster_virtual_interface''"
| "typeof_tag InlineInterface = ''inline_interface''"
| "typeof_tag InlineL2FWInterface = ''inline_l2fw_interface''"
| "typeof_tag InlineIPSInterface = ''inline_ips_interface''"
| "typeof_tag CaptureInterface = ''capture_interface''"

text \<open>
  \<^verbatim>\<open>if_type(self.interfaces[0][if_type.typeof]).failure_mode\<close>. A first entry
  without the key \<^verbatim>\<open>if_type.typeof\<close> raises \<^verbatim>\<open>KeyError\<close> with that key.
\<close>

definition parent_failure_mode :: "subif_class \<Rightarrow> ifdata \<Rightarrow> error + pyval" where
  "parent_failure_mode if_type b =
     (case d_interfaces b of
        None \<Rightarrow> Inl AttributeError
      | Some [] \<Rightarrow> Inl IndexError
      | Some (en # ens) \<Rightarrow>
          (case map_of en if_type of
             None \<Rightarrow> Inl (KeyError (typeof_tag if_type))
           | Some parent_if \<Rightarrow> Inr (getattr parent_if ''failure_mode'')))"

definition l2_inline_vlan ::
  "helpers \<Rightarrow> pyval \<Rightarrow> pyval \<Rightarrow> pyval \<Rightarrow> pyval \<Rightarrow> pyval \<Rightarrow> pyval \<Rightarrow> subif_class \<Rightarrow>
   ifdata \<Rightarrow> error + ifdata" where
  "l2_inline_vlan H interface_id logical_interface_ref vlan_id vlan_id2 zone_ref_intf1 zone_ref_intf2
       if_type b =
     (if truthy vlan_id then
        (case interface_id of
           PStr s \<Rightarrow>
             (case py_split CHR ''-'' s of
                [] \<Rightarrow> Inl IndexError
              | first_intf # others \<Rightarrow>
                  (let vlan = vlan_create H (PStr first_intf) vlan_id PNone PNone zone_ref_intf1 None;
                       inline_intf = create H if_type [interface_id, logical_interface_ref]
                                       [(''zone_ref'', zone_helper H zone_ref_intf2)]
                   in case (if if_type \<noteq> InlineL2FWInterface
                            then (case parent_failure_mode if_type b of
                                    Inl x \<Rightarrow> Inl x
                                  | Inr fm \<Rightarrow> Inr (setattr inline_intf ''failure_mode'' fm))
                            else Inr inline_intf) of
                        Inl x \<Rightarrow> Inl x
                      | Inr inline_intf \<Rightarrow>
                          (let vlan_id2 = (if if_type \<noteq> InlineInterface then vlan_id else vlan_id2)
                           in case append_interface
                                     (add_vlan_to_inline H [(if_type, inline_intf)] vlan_id vlan_id2)
                                     vlan of
                                Inl x \<Rightarrow> Inl x
                              | Inr vlan \<Rightarrow> append_vlan vlan b)))
         | PNone \<Rightarrow> Inl AttributeError
         | PBool x \<Rightarrow> Inl AttributeError
         | PInt x \<Rightarrow> Inl AttributeError)
      else Inr b)"

definition add_l2_inline ::
  "helpers \<Rightarrow> pyval \<Rightarrow> pyval \<Rightarrow> pyval \<Rightarrow> pyval \<Rightarrow> pyval \<Rightarrow> pyval \<Rightarrow> subif_class \<Rightarrow> fields \<Rightarrow>
   ifdata \<Rightarrow> error + ifdata" where
  "add_l2_inline H interface_id logical_interface_ref vlan_id vlan_id2 zone_ref_intf1 zone_ref_intf2
       if_type kw b =
     (let logical_interface_ref = logical_intf_helper H logical_interface_ref
      in case l2_inline_base H interface_id logical_interface_ref vlan_id zone_ref_intf2 if_type kw b of
           Inl x \<Rightarrow> Inl x
         | Inr b \<Rightarrow>
             l2_inline_vlan H interface_id logical_interface_ref vlan_id vlan_id2
               zone_ref_intf1 zone_ref_intf2 if_type b)"

text \<open>
  \<^verbatim>\<open>InterfaceBuilder.getBuilder(instance, interface_id)\<close>. \<open>lookup\<close> is the body of the
  \<^verbatim>\<open>try\<close>: \<^verbatim>\<open>InterfaceModifier.byEngine(instance._engine).get(interface_id)\<close>. Only
  \<^verbatim>\<open>EngineCommandFailed\<close> is caught; \<open>instance_class\<close> is \<^verbatim>\<open>instance.__class__\<close>.
\<close>

definition lookup :: "engine \<Rightarrow> pyval \<Rightarrow> error + interface" where
  "lookup e interface_id =
     (case byEngine e of
        Inl x \<Rightarrow> Inl x
      | Inr interfaces \<Rightarrow> get interfaces interface_id)"

definition getBuilder :: "iface_class \<Rightarrow> engine \<Rightarrow> pyval \<Rightarrow> error + ifdata \<times> interface option" where
  "getBuilder instance_class e interface_id =
     (case lookup e interface_id of
        Inl (EngineCommandFailed msg) \<Rightarrow>
          (let builder = (if instance_class = TunnelInterface
                          then InterfaceBuilder TunnelInterface empty_dict
                          else InterfaceBuilder PhysicalInterface empty_dict)
           in Inr (set_interface_id (Some interface_id) builder, None))
      | Inl (UpdateElementFailed msg) \<Rightarrow> Inl (UpdateElementFailed msg)
      | Inl AttributeError \<Rightarrow> Inl AttributeError
      | Inl IndexError \<Rightarrow> Inl IndexError
      | Inl (KeyError k) \<Rightarrow> Inl (KeyError k)
      | Inl TypeError \<Rightarrow> Inl TypeError
      | Inl ValueError \<Rightarrow> Inl ValueError
      | Inr interface \<Rightarrow> Inr (InterfaceBuilder PhysicalInterface (data interface), Some interface))"

section \<open>Dispatch, the engine cache and the cluster address change\<close>

text \<open>
  The management server is reached through \<^verbatim>\<open>smc.base.model\<close> and the engine object,
  neither among these sources. The server is a state \<open>'srv\<close> of any type; a request
  changes it and either returns or raises. The state of one call is the server together
  with the engine's cached snapshot and the number of invalidations so far.
\<close>

record 'srv world =
  server :: 'srv
  cache :: "engine option"
  del_cache_calls :: nat

text \<open>
  Modelled from the spec: \<^verbatim>\<open>_del_cache\<close> of the engine, which is not among these sources.
  It drops the last-fetched snapshot, so that the next read fetches again.
\<close>

definition del_cache :: "'srv world \<Rightarrow> 'srv world" where
  "del_cache w = w\<lparr>cache := None, del_cache_calls := Suc (del_cache_calls w)\<rparr>"

text \<open>
  The two requests of \<^verbatim>\<open>dispatch\<close>: \<^verbatim>\<open>interface.update(EngineCommandFailed,
  href=interface.href, etag=interface.etag, json=builder.data)\<close> and
  \<^verbatim>\<open>prepared_request(EngineCommandFailed, href=instance.href, json=builder.data).create()\<close>.
  The payload \<open>'j\<close> is the \<^verbatim>\<open>data\<close> of a builder or of a modifier, the object \<open>'i\<close> to
  update an interface or the engine.
\<close>

record ('i, 'j, 'srv) transport =
  update :: "'i \<Rightarrow> 'j \<Rightarrow> 'srv \<Rightarrow> (error + unit) \<times> 'srv"
  create_request :: "pyval \<Rightarrow> 'j \<Rightarrow> 'srv \<Rightarrow> (error + unit) \<times> 'srv"



subsection \<open>\<^verbatim>\<open>Interface.change_cluster_ipaddress\<close>\<close>

text \<open>\<^verbatim>\<open>Interface.has_vlan\<close>.\<close>

definition has_vlan :: "interface \<Rightarrow> bool" where
  "has_vlan i = (case d_vlanInterfaces (data i) of Some (v # vs) \<Rightarrow> True | _ \<Rightarrow> False)"

text \<open>
  What the method needs from outside these sources: \<^verbatim>\<open>update()\<close> of the base class
  (the request of \<^verbatim>\<open>save\<close>), the engine's routing table (\<open>prune_routes nicid
  network_value\<close> is \<^verbatim>\<open>routing.get(nicid)\<close> and the loop that deletes every route whose
  \<^verbatim>\<open>ip\<close> differs), the \<^verbatim>\<open>vlan_id\<close> of a sub-interface wrapper, and an attribute of a
  \<^verbatim>\<open>PhysicalVlanInterface\<close> that the class itself does not define.
\<close>

record 'srv net =
  save_update :: "interface \<Rightarrow> 'srv \<Rightarrow> (error + unit) \<times> 'srv"
  prune_routes :: "pyval \<Rightarrow> pyval \<Rightarrow> 'srv \<Rightarrow> (error + unit) \<times> 'srv"
  sub_vlan_id :: "subif_class \<Rightarrow> fields \<Rightarrow> pyval"
  vlan_attr :: "string \<Rightarrow> ifdata \<Rightarrow> error + pyval"

text \<open>\<^verbatim>\<open>Interface.save\<close>: the update, then the invalidation.\<close>

definition save :: "'srv net \<Rightarrow> interface \<Rightarrow> 'srv world \<Rightarrow> (error + unit) \<times> 'srv world" where
  "save N i w =
     (case save_update N i (server w) of
        (Inl x, srv) \<Rightarrow> (Inl x, w\<lparr>server := srv\<rparr>)
      | (Inr u, srv) \<Rightarrow> (Inr (), del_cache (w\<lparr>server := srv\<rparr>)))"

text \<open>\<^verbatim>\<open>vlan_id\<close> of an element of \<^verbatim>\<open>sub_interfaces()\<close>; for a VLAN without address it is
  the property \<^verbatim>\<open>PhysicalVlanInterface.vlan_id\<close>, the part of the id after the last dot.\<close>

fun vlan_id_of :: "'srv net \<Rightarrow> sub \<Rightarrow> error + pyval" where
  "vlan_id_of N (Sub c v) = Inr (sub_vlan_id N c v)"
| "vlan_id_of N (Vlan d) =
     (case id_of d of
        PStr s \<Rightarrow> Inr (PStr (last (py_split CHR ''.'' s)))
      | PNone \<Rightarrow> Inl AttributeError
      | PBool x \<Rightarrow> Inl AttributeError
      | PInt x \<Rightarrow> Inl AttributeError)"

text \<open>The loop body: the new address of a CVI, or of a node interface from the entry of
  \<^verbatim>\<open>nodes\<close> with its \<^verbatim>\<open>nodeid\<close>.\<close>

definition node_step :: "fields \<Rightarrow> fields \<Rightarrow> fields" where
  "node_step node v =
     (if py_eq (getattr node ''nodeid'') (getattr v ''nodeid'')
      then setattr (setattr v ''address'' (getattr node ''address''))
             ''network_value'' (getattr node ''network_value'')
      else v)"

definition change_sub :: "pyval \<Rightarrow> pyval \<Rightarrow> fields list \<Rightarrow> subif_class \<Rightarrow> fields \<Rightarrow> fields" where
  "change_sub cvi cvi_network_value nodes c v =
     (if truthy cvi \<and> isinstance c ClusterVirtualInterface then
        (let v = setattr v ''address'' cvi
         in if truthy cvi_network_value then setattr v ''network_value'' cvi_network_value else v)
      else if nodes \<noteq> [] \<and> isinstance c NodeInterface then
        fold node_step nodes v
      else v)"

definition saves :: "pyval \<Rightarrow> fields list \<Rightarrow> subif_class \<Rightarrow> fields \<Rightarrow> bool" where
  "saves cvi nodes c v =
     ((truthy cvi \<and> isinstance c ClusterVirtualInterface) \<or>
      (nodes \<noteq> [] \<and> isinstance c NodeInterface \<and>
       list_ex (\<lambda>node. py_eq (getattr node ''nodeid'') (getattr v ''nodeid'')) nodes))"

text \<open>Which elements the method works on: with a \<^verbatim>\<open>vlan_id\<close>, those whose \<^verbatim>\<open>vlan_id\<close> is
  \<^verbatim>\<open>str(vlan_id)\<close>.\<close>

definition selected :: "'srv net \<Rightarrow> pyval \<Rightarrow> sub \<Rightarrow> bool" where
  "selected N vlan_id s =
     (if truthy vlan_id then vlan_id_of N s = Inr (PStr (py_str vlan_id)) else True)"

fun changed_sub :: "'srv net \<Rightarrow> pyval \<Rightarrow> pyval \<Rightarrow> pyval \<Rightarrow> fields list \<Rightarrow> sub \<Rightarrow> sub" where
  "changed_sub N vlan_id cvi cvi_network_value nodes (Sub c v) =
     (if selected N vlan_id (Sub c v) then Sub c (change_sub cvi cvi_network_value nodes c v)
      else Sub c v)"
| "changed_sub N vlan_id cvi cvi_network_value nodes (Vlan d) = Vlan d"

fun sub_saves :: "pyval \<Rightarrow> fields list \<Rightarrow> sub \<Rightarrow> bool" where
  "sub_saves cvi nodes (Sub c v) = saves cvi nodes c v"
| "sub_saves cvi nodes (Vlan d) = False"

text \<open>The part after \<^verbatim>\<open>self.save()\<close>: the first element gives the network and the nic
  id, then the routes are pruned.\<close>

definition first_network :: "'srv net \<Rightarrow> sub list \<Rightarrow> error + pyval \<times> pyval" where
  "first_network N interfaces =
     (case interfaces of
        [] \<Rightarrow> Inl TypeError
      | Sub c v # rest \<Rightarrow> Inr (getattr v ''network_value'', getattr v ''nicid'')
      | Vlan d # rest \<Rightarrow>
          (case vlan_attr N ''network_value'' d of
             Inl x \<Rightarrow> Inl x
           | Inr nv \<Rightarrow>
               (case vlan_attr N ''nicid'' d of Inl x \<Rightarrow> Inl x | Inr n \<Rightarrow> Inr (nv, n))))"

definition change_cluster_ipaddress ::
  "'srv net \<Rightarrow> pyval \<Rightarrow> pyval \<Rightarrow> fields list \<Rightarrow> pyval \<Rightarrow> interface \<times> 'srv world \<Rightarrow>
   (error + unit) \<times> interface \<times> 'srv world" where
  "change_cluster_ipaddress N cvi cvi_network_value nodes vlan_id iw =
     (let i = fst iw; w = snd iw in
      if has_vlan i \<and> \<not> truthy vlan_id then
        (Inl (UpdateElementFailed
           (''Interface with VLANs configured require a CVI be specified to change '' @
            ''the correct VLAN address.'')), i, w)
      else
        (case sub_interfaces i of
           Inl x \<Rightarrow> (Inl x, i, w)
         | Inr all_subs \<Rightarrow>
             (case (if truthy vlan_id then sequence (map (vlan_id_of N) all_subs) else Inr []) of
                Inl x \<Rightarrow> (Inl x, i, w)
              | Inr ids \<Rightarrow>
                  (let interfaces = filter (selected N vlan_id) all_subs;
                       do_save = list_ex (sub_saves cvi nodes) interfaces;
                       i = i\<lparr>data := swept_data
                                (\<lambda>c v. if selected N vlan_id (Sub c v)
                                        then change_sub cvi cvi_network_value nodes c v else v)
                                (data i)\<rparr>
                   in if do_save then
                        (case save N i w of
                           (Inl x, w) \<Rightarrow> (Inl x, i, w)
                         | (Inr u, w) \<Rightarrow>
                             (case first_network N
                                     (map (changed_sub N vlan_id cvi cvi_network_value nodes) interfaces) of
                                Inl x \<Rightarrow> (Inl x, i, w)
                              | Inr (network_value, nicid) \<Rightarrow>
                                  (case prune_routes N nicid network_value (server w) of
                                     (r, srv) \<Rightarrow> (r, i, w\<lparr>server := srv\<rparr>))))
                      else (Inr (), i, w)))))"

section \<open>Example engines\<close>

text \<open>A cluster whose interface 0 carries one node-dedicated address per node.\<close>

definition ex_ndi :: "string \<Rightarrow> int \<Rightarrow> bool \<Rightarrow> fields" where
  "ex_ndi nic node flag =
     [(''address'', PStr ''10.0.0.1''), (''network_value'', PStr ''10.0.0.0/24''),
      (''nicid'', PStr nic), (''nodeid'', PInt node), (''primary_mgt'', PBool flag)]"

definition ex_cluster_if0 :: "bool \<Rightarrow> interface" where
  "ex_cluster_if0 flag =
     \<lparr>name = PStr ''Interface 0'', typeof = PhysicalInterface, href = PNone,
      data = IfData (Some (PStr ''0'')) None None None
               (Some [[(NodeInterface, ex_ndi ''0'' 1 flag)], [(NodeInterface, ex_ndi ''0'' 2 flag)]])
               (Some []) []\<rparr>"

definition ex_cluster :: "bool \<Rightarrow> modifier" where
  "ex_cluster flag =
     \<lparr>ifaces = [ex_cluster_if0 flag],
      engine = \<lparr>etype = ''fw_cluster'', physicalInterfaces = None\<rparr>\<rparr>"

text \<open>An address test for calls that pass no address: it is never consulted.\<close>

definition no_address :: "pyval \<Rightarrow> pyval \<Rightarrow> error + bool" where
  "no_address a n = Inl ValueError"

text \<open>
  A firewall cluster: interface 0 has a CVI and a node-dedicated address, interface 1 has a
  node-dedicated address only. The engine type is a parameter.
\<close>

definition ex_addr :: "string \<Rightarrow> string \<Rightarrow> bool \<Rightarrow> fields" where
  "ex_addr nic addr auth =
     [(''address'', PStr addr), (''nicid'', PStr nic), (''auth_request'', PBool auth)]"

definition ex_auth_if0 :: "bool \<Rightarrow> interface" where
  "ex_auth_if0 auth =
     \<lparr>name = PStr ''Interface 0'', typeof = PhysicalInterface, href = PNone,
      data = IfData (Some (PStr ''0'')) None None None
               (Some [[(ClusterVirtualInterface, ex_addr ''0'' ''10.0.0.254'' auth)],
                      [(NodeInterface, ex_addr ''0'' ''10.0.0.1'' False)]])
               (Some []) []\<rparr>"

definition ex_auth_if1 :: "bool \<Rightarrow> interface" where
  "ex_auth_if1 auth =
     \<lparr>name = PStr ''Interface 1'', typeof = PhysicalInterface, href = PNone,
      data = IfData (Some (PStr ''1'')) None None None
               (Some [[(NodeInterface, ex_addr ''1'' ''10.0.1.1'' auth)]])
               (Some []) []\<rparr>"

definition ex_auth :: "string \<Rightarrow> bool \<Rightarrow> bool \<Rightarrow> modifier" where
  "ex_auth ty a0 a1 =
     \<lparr>ifaces = [ex_auth_if0 a0, ex_auth_if1 a1],
      engine = \<lparr>etype = ty, physicalInterfaces = None\<rparr>\<rparr>"




text \<open>The names of the positional parameters of a factory and the role flags of a variant.\<close>

definition positional :: "subif_class \<Rightarrow> string list" where
  "positional c =
     (if isinstance c InlineInterface \<or> c = CaptureInterface
      then [''interface_id'', ''logical_interface_ref'']
      else [''interface_id'', ''address'', ''network_value'', ''nodeid''])"

definition role_flags :: "subif_class \<Rightarrow> fields" where
  "role_flags c =
     (if c = SingleNodeInterface \<or> c = NodeInterface then
        [(''auth_request'', PBool False), (''backup_heartbeat'', PBool False),
         (''backup_mgt'', PBool False), (''outgoing'', PBool False),
         (''primary_heartbeat'', PBool False), (''primary_mgt'', PBool False)]
      else if c = ClusterVirtualInterface then [(''auth_request'', PBool False)]
      else [])"

text \<open>
  Modelled from the spec: the \<^verbatim>\<open>create\<close> factories of \<^verbatim>\<open>smc.core.sub_interfaces\<close>, which
  are not among these sources. A factory produces wire-schema data from its explicit
  parameters: the nic id is the interface id as a string, the other parameters are
  copied, and the role flags a variant carries start out false.
\<close>

definition spec_create :: "subif_class \<Rightarrow> pyval list \<Rightarrow> fields \<Rightarrow> fields" where
  "spec_create c args kw =
     (let a = zip (positional c) args @ kw
      in (''nicid'', PStr (py_str (getattr a ''interface_id''))) #
         filter (\<lambda>kv. fst kv \<noteq> ''interface_id'') a @ role_flags c)"

text \<open>Each side of a nic id \<^verbatim>\<open>"id1-id2"\<close> qualified with a VLAN id.\<close>

definition qualify :: "pyval \<Rightarrow> pyval \<Rightarrow> subif_class \<times> fields \<Rightarrow> subif_class \<times> fields" where
  "qualify vlan_id vlan_id2 tv =
     (case getattr (snd tv) ''nicid'' of
        PStr s \<Rightarrow>
          (case py_split CHR ''-'' s of
             [a, b] \<Rightarrow>
               (fst tv, setattr (snd tv) ''nicid''
                  (PStr (a @ ''.'' @ py_str vlan_id @ ''-'' @ b @ ''.'' @ py_str vlan_id2)))
           | _ \<Rightarrow> tv)
      | _ \<Rightarrow> tv)"

text \<open>
  Modelled from the spec: \<^verbatim>\<open>_add_vlan_to_inline\<close> of \<^verbatim>\<open>smc.core.sub_interfaces\<close>, which is
  not among these sources. An inline pair with a VLAN on each side has the nic id
  \<^verbatim>\<open>"id1.v1-id2.v2"\<close>. The spec describes the call with two VLAN ids only.
\<close>

definition spec_add_vlan_to_inline ::
  "(subif_class \<times> fields) list \<Rightarrow> pyval \<Rightarrow> pyval \<Rightarrow> (subif_class \<times> fields) list" where
  "spec_add_vlan_to_inline en vlan_id vlan_id2 = map (qualify vlan_id vlan_id2) en"

text \<open>Helpers that hand a reference back as it is, and the collaborators together.\<close>

definition plain_helper :: "pyval \<Rightarrow> pyval" where
  "plain_helper x = x"

definition spec_helpers :: helpers where
  "spec_helpers = \<lparr>create = spec_create, add_vlan_to_inline = spec_add_vlan_to_inline,
                  zone_helper = plain_helper, logical_intf_helper = plain_helper\<rparr>"

text \<open>A fresh builder for a physical interface with its id set, the nic ids below its
  VLANs, and a builder with the VLAN 1.100.\<close>

definition ex_builder :: "string \<Rightarrow> ifdata" where
  "ex_builder iid = set_interface_id (Some (PStr iid)) (InterfaceBuilder PhysicalInterface empty_dict)"

definition vlan_nicids :: "ifdata \<Rightarrow> pyval list" where
  "vlan_nicids b =
     concat (map (\<lambda>vlan. map (\<lambda>tv. getattr (snd tv) ''nicid'')
                           (concat (case d_interfaces vlan of None \<Rightarrow> [] | Some x \<Rightarrow> x)))
                 (case d_vlanInterfaces b of None \<Rightarrow> [] | Some x \<Rightarrow> x))"

definition ex_vlan_builder :: ifdata where
  "ex_vlan_builder =
     set_vlanInterfaces
       (Some [vlan_create spec_helpers (PInt 1) (PInt 100) PNone PNone PNone None]) (ex_builder ''1'')"



text \<open>
  A single firewall with a layer 3 interface \<open>n\<close> and the inline pair 2-3, as a snapshot and
  as \<^verbatim>\<open>byEngine\<close> loads it.
\<close>

definition ex_link :: "string \<Rightarrow> fields list" where
  "ex_link h = [[(''href'', PStr h), (''rel'', PStr ''self'')]]"

definition ex_single_data :: "string \<Rightarrow> ifdata" where
  "ex_single_data n =
     IfData (Some (PStr n)) None (Some (ex_link (''http://smc/interface/'' @ n))) None
       (Some [[(SingleNodeInterface,
                [(''address'', PStr ''10.0.0.1''), (''network_value'', PStr ''10.0.0.0/24''),
                 (''nicid'', PStr n)])]])
       (Some []) []"

definition ex_inline_data :: ifdata where
  "ex_inline_data =
     IfData (Some (PStr ''2'')) None (Some (ex_link ''http://smc/interface/2'')) None
       (Some [[(InlineInterface,
                [(''nicid'', PStr ''2-3''), (''logical_interface_ref'', PStr ''eth'')])]])
       (Some []) []"

definition ex_single :: "string \<Rightarrow> interface" where
  "ex_single n =
     \<lparr>name = PStr (''Interface '' @ n), typeof = PhysicalInterface,
      href = PStr (''http://smc/interface/'' @ n), data = ex_single_data n\<rparr>"

definition ex_inline :: interface where
  "ex_inline =
     \<lparr>name = PStr ''Interface 2 - Interface 3 (Inline)'', typeof = PhysicalInterface,
      href = PStr ''http://smc/interface/2'', data = ex_inline_data\<rparr>"

definition ex_engine :: "string \<Rightarrow> engine" where
  "ex_engine n =
     \<lparr>etype = ''single_fw'',
      physicalInterfaces =
        Some [[(PhysicalInterface, ex_single_data n)], [(PhysicalInterface, ex_inline_data)]]\<rparr>"

definition ex_loaded :: "string \<Rightarrow> modifier" where
  "ex_loaded n = \<lparr>ifaces = [ex_single n, ex_inline], engine = ex_engine n\<rparr>"

text \<open>
  A single firewall whose interface 0 carries one address with the flag
  \<^verbatim>\<open>primary_mgt\<close>, beside the inline pair: the interface as it is loaded, the engine
  snapshot, and the tree of a modifier whose interface 0 has the flag \<open>flag\<close> while its
  engine snapshot still has \<open>snapshot\<close>.
\<close>

definition ex_mgmt_data :: "bool \<Rightarrow> ifdata" where
  "ex_mgmt_data flag =
     IfData (Some (PStr ''0'')) None (Some (ex_link ''http://smc/interface/0'')) None
       (Some [[(SingleNodeInterface,
                [(''address'', PStr ''10.0.0.1''), (''network_value'', PStr ''10.0.0.0/24''),
                 (''nicid'', PStr ''0''), (''primary_mgt'', PBool flag)])]])
       (Some []) []"

definition ex_mgmt :: "bool \<Rightarrow> interface" where
  "ex_mgmt flag =
     \<lparr>name = PStr ''Interface 0'', typeof = PhysicalInterface,
      href = PStr ''http://smc/interface/0'', data = ex_mgmt_data flag\<rparr>"

definition ex_mgmt_engine :: "bool \<Rightarrow> engine" where
  "ex_mgmt_engine flag =
     \<lparr>etype = ''single_fw'',
      physicalInterfaces =
        Some [[(PhysicalInterface, ex_mgmt_data flag)], [(PhysicalInterface, ex_inline_data)]]\<rparr>"

definition ex_mgmt_tree :: "bool \<Rightarrow> bool \<Rightarrow> modifier" where
  "ex_mgmt_tree flag snapshot =
     \<lparr>ifaces = [ex_mgmt flag, ex_inline], engine = ex_mgmt_engine snapshot\<rparr>"

text \<open>A server that counts the requests it has seen and refuses a request when told to.\<close>

definition ex_request :: "bool \<Rightarrow> nat \<Rightarrow> (error + unit) \<times> nat" where
  "ex_request ok srv =
     (if ok then (Inr (), Suc srv) else (Inl (EngineCommandFailed ''status 400''), Suc srv))"


text \<open>Collaborators of \<^verbatim>\<open>change_cluster_ipaddress\<close> on that server, a state with a
  cached snapshot, and an interface with the VLAN 1.100.\<close>

definition ex_net :: "nat net" where
  "ex_net =
     \<lparr>save_update = (\<lambda>i. ex_request True), prune_routes = (\<lambda>n v. ex_request True),
      sub_vlan_id = (\<lambda>c v. PNone), vlan_attr = (\<lambda>k d. Inl AttributeError)\<rparr>"

definition ex_world :: "nat world" where
  "ex_world = \<lparr>server = 0, cache = Some (ex_engine ''0''), del_cache_calls = 0\<rparr>"

definition ex_vlan_interface :: interface where
  "ex_vlan_interface =
     \<lparr>name = PStr ''Interface 1'', typeof = PhysicalInterface, href = PStr ''http://smc/interface/1'',
      data = ex_vlan_builder\<rparr>"


section \<open>Basic facts\<close>



lemma case_not_cons:
  "\<not> (\<exists>e es. x = Some (e # es)) \<Longrightarrow> (case x of Some (e # es) \<Rightarrow> a e es | _ \<Rightarrow> b) = b"
  by (auto split: option.splits list.splits)

lemma sequence_map_Inr:
  "(\<And>x. x \<in> set xs \<Longrightarrow> f x = Inr (h x)) \<Longrightarrow> sequence (map f xs) = Inr (map h xs)"
  by (induction xs) auto

lemma collect_map_Inr:
  "(\<And>x. x \<in> set xs \<Longrightarrow> f x = Inr (h x)) \<Longrightarrow> collect (map f xs) = Inr (concat (map h xs))"
  by (induction xs) auto

lemma collect_Inr_D:
  "collect (map f xs) = Inr ys \<Longrightarrow> \<exists>h. (\<forall>x\<in>set xs. f x = Inr (h x)) \<and> ys = concat (map h xs)"
proof (induction xs arbitrary: ys)
  case Nil
  then show ?case by simp
next
  case (Cons x xs)
  from Cons.prems obtain a b
    where a: "f x = Inr a" and b: "collect (map f xs) = Inr b" and ys: "ys = a @ b"
    by (auto split: sum.splits)
  from Cons.IH[OF b] obtain h where h: "\<forall>x\<in>set xs. f x = Inr (h x)" "b = concat (map h xs)"
    by blast
  show ?case
  proof (intro exI conjI)
    show "\<forall>y\<in>set (x # xs). f y = Inr ((\<lambda>y. projr (f y)) y)"
      using a h by auto
    show "ys = concat (map (\<lambda>y. projr (f y)) (x # xs))"
      using ys a h by (auto intro!: arg_cong[where f=concat])
  qed
qed

subsection \<open>A sweep whose body cannot raise\<close>

lemma inner_swept:
  "inner ty d = Inr subs \<Longrightarrow> inner ty (swept_data h d) = Inr (map (on_sub h) subs)"
proof (induction ty d arbitrary: subs rule: inner.induct)
  case (1 ty iid nm lk z ifs vl oth)
  show ?case
  proof (cases "\<exists>e es. ifs = Some (e # es)")
    case True
    then obtain e es where ifs: "ifs = Some (e # es)" by blast
    with "1.prems" show ?thesis
      by (auto simp: map_concat comp_def case_prod_beta)
  next
    case False
    note nifs = this
    note c1 = case_not_cons[OF nifs]
    show ?thesis
    proof (cases "\<exists>v vs. vl = Some (v # vs)")
      case True
      then obtain v vs where vl: "vl = Some (v # vs)" by blast
      from "1.prems" nifs vl have col: "collect (map (inner ty) (v # vs)) = Inr subs"
        by (simp add: c1 del: collect.simps list.map)
      from collect_Inr_D[OF col] obtain k
        where k: "\<forall>x\<in>set (v # vs). inner ty x = Inr (k x)"
          and subs: "subs = concat (map k (v # vs))" by blast
      have ih: "inner ty (swept_data h x) = Inr (map (on_sub h) (k x))" if "x \<in> set (v # vs)" for x
      proof (cases ifs)
        case None
        from "1.IH"(1)[OF None vl refl that] k that show ?thesis by auto
      next
        case (Some a)
        with nifs have a: "a = []" by (cases a) auto
        from "1.IH"(2)[OF Some a vl refl that] k that show ?thesis by auto
      qed
      have "collect (map (inner ty) (map (swept_data h) (v # vs)))
            = Inr (concat (map (\<lambda>x. map (on_sub h) (k x)) (v # vs)))"
        unfolding map_map comp_def by (rule collect_map_Inr) (use ih in auto)
      then show ?thesis using nifs vl subs
        by (simp add: c1 map_concat comp_def del: collect.simps)
    next
      case False
      note c2 = case_not_cons[OF False]
      from "1.prems" show ?thesis
        by (auto simp: c1 c2 split: if_splits option.splits pyval.splits)
    qed
  qed
qed

lemma sweep_pure:
  assumes f: "\<And>t v. f t v = Inr (h t v)"
  shows "inner ty d = Inr subs \<Longrightarrow> (\<And>x. Vlan x \<in> set subs \<Longrightarrow> g x = Inr ()) \<Longrightarrow>
         sweep f g ty d = Inr (swept_data h d)"
proof (induction ty d arbitrary: subs rule: inner.induct)
  case (1 ty iid nm lk z ifs vl oth)
  note g = "1.prems"(2)
  show ?case
  proof (cases "\<exists>e es. ifs = Some (e # es)")
    case True
    then obtain e es where ifs: "ifs = Some (e # es)" by blast
    have en: "sequence (map (on_entry f) en) = Inr (map (\<lambda>tv. (fst tv, h (fst tv) (snd tv))) en)" for en
      by (rule sequence_map_Inr) (simp add: on_entry_def f)
    have "sequence (map (\<lambda>en. sequence (map (on_entry f) en)) (e # es))
          = Inr (map (map (\<lambda>tv. (fst tv, h (fst tv) (snd tv)))) (e # es))"
      by (rule sequence_map_Inr) (rule en)
    with ifs show ?thesis by (simp del: sequence.simps list.map)
  next
    case False
    note nifs = this
    note c1 = case_not_cons[OF nifs]
    show ?thesis
    proof (cases "\<exists>v vs. vl = Some (v # vs)")
      case True
      then obtain v vs where vl: "vl = Some (v # vs)" by blast
      from "1.prems"(1) nifs vl have col: "collect (map (inner ty) (v # vs)) = Inr subs"
        by (simp add: c1 del: collect.simps list.map)
      from collect_Inr_D[OF col] obtain k
        where k: "\<forall>x\<in>set (v # vs). inner ty x = Inr (k x)"
          and subs: "subs = concat (map k (v # vs))"
        by blast
      have ih: "sweep f g ty x = Inr (swept_data h x)" if "x \<in> set (v # vs)" for x
      proof -
        have kx: "inner ty x = Inr (k x)" using k that by blast
        have gx: "g y = Inr ()" if "Vlan y \<in> set (k x)" for y
          by (rule g) (use that \<open>x \<in> set (v # vs)\<close> subs in auto)
        show ?thesis
        proof (cases ifs)
          case None
          from "1.IH"(1)[OF None vl refl that kx gx] show ?thesis by simp
        next
          case (Some a)
          with nifs have a: "a = []" by (cases a) auto
          from "1.IH"(2)[OF Some a vl refl that kx gx] show ?thesis by simp
        qed
      qed
      have "sequence (map (sweep f g ty) (v # vs)) = Inr (map (swept_data h) (v # vs))"
        by (rule sequence_map_Inr) (rule ih)
      then show ?thesis using nifs vl
        by (simp add: c1 del: sequence.simps list.map)
    next
      case False
      note c2 = case_not_cons[OF False]
      from "1.prems"(1) g show ?thesis
        by (auto simp: c1 c2 split: if_splits option.splits pyval.splits)
    qed
  qed
qed

subsection \<open>A sweep that meets a raising body\<close>



subsection \<open>The loop over one interface\<close>

lemma assign_through_pure:
  assumes f: "\<And>t v. f t v = Inr (h t v)"
    and subs: "sub_interfaces i = Inr subs"
    and g: "\<And>x. Vlan x \<in> set subs \<Longrightarrow> g x = Inr ()"
  shows "assign_through f g i = Inr (i\<lparr>data := swept_data h (data i)\<rparr>)"
proof -
  from subs have "inner (typeof i) (data i) = Inr subs"
    by (simp add: sub_interfaces_def)
  from sweep_pure[of f h, OF f this g] show ?thesis
    by (simp add: assign_through_def)
qed

lemma sweep_interface_pure:
  assumes f: "\<And>t v. f t v = Inr (h t v)" and g: "\<And>d. g d = Inr ()"
    and subs: "sub_interfaces i = Inr subs"
  shows "sweep_interface f g i = Inr (i\<lparr>data := swept_data h (data i)\<rparr>)"
  using assign_through_pure[of f h i subs g, OF f subs g] subs
  by (simp add: sweep_interface_def)

lemma sub_interfaces_swept:
  "sub_interfaces i = Inr subs \<Longrightarrow>
   sub_interfaces (i\<lparr>data := swept_data h (data i)\<rparr>) = Inr (map (on_sub h) subs)"
  by (simp add: sub_interfaces_def inner_swept)

lemmas ex_defs = ex_cluster_def ex_cluster_if0_def ex_ndi_def

lemmas eval_defs = set_unset_def sweep_interface_def assign_through_def sub_interfaces_def
  on_entry_def set_unset_sub_def getattr_def setattr_def str_int_def str_nat.simps digit_def
  skip_vlan_def

lemmas ex_builder_defs = ex_builder_def InterfaceBuilder_def empty_dict_def spec_helpers_def
  spec_create_def positional_def role_flags_def spec_add_vlan_to_inline_def qualify_def plain_helper_def
  ex_vlan_builder_def vlan_create_def

lemmas builder_defs = add_l2_inline_def l2_inline_base_def l2_inline_vlan_def append_interface_def
  append_vlan_def parent_failure_mode_def add_cvi_only_def add_sni_only_def add_ndi_only_def
  remove_vlan_def isinstance_def getattr_def setattr_def str_int_def str_nat.simps digit_def
  id_of_def Let_def

subsection \<open>Loading, looking up\<close>

lemma make_interface_fixed:
  "make_interface td = Inr i \<Longrightarrow> make_interface (typeof i, data i) = Inr i"
  by (auto simp: make_interface_def split: sum.splits)

lemma sequence_map_Inr_member:
  "sequence (map f xs) = Inr ys \<Longrightarrow> y \<in> set ys \<Longrightarrow> \<exists>x\<in>set xs. f x = Inr y"
  by (induction xs arbitrary: ys) (auto split: sum.splits)

lemma byEngine_interfaces_fixed:
  assumes "byEngine e = Inr m" and "i \<in> set (ifaces m)"
  shows "make_interface (typeof i, data i) = Inr i"
proof -
  from assms(1) obtain intfs where "physicalInterfaces e = Some intfs"
    and seq: "sequence (map make_interface (concat intfs)) = Inr (ifaces m)"
    by (auto simp: byEngine_def split: option.splits sum.splits)
  from sequence_map_Inr_member[OF seq assms(2)]
  obtain td where "make_interface td = Inr i" by blast
  then show ?thesis by (rule make_interface_fixed)
qed

lemmas ex_mgmt_defs = ex_mgmt_data_def ex_mgmt_def ex_mgmt_engine_def ex_mgmt_tree_def
  ex_inline_def ex_inline_data_def ex_link_def

lemma concat_singletons: "concat (map (\<lambda>x. [f x]) xs) = map f xs"
  by (induction xs) simp_all

lemma make_interface_keeps:
  "make_interface td = Inr i \<Longrightarrow> typeof i = fst td \<and> data i = snd td"
  by (auto simp: make_interface_def split: sum.splits)

lemma sequence_make_interface_keeps:
  "sequence (map make_interface tds) = Inr is \<Longrightarrow>
   map typeof is = map fst tds \<and> map data is = map snd tds"
proof (induction tds arbitrary: "is")
  case Nil
  then show ?case by simp
next
  case (Cons td tds)
  from Cons.prems obtain i js where i: "make_interface td = Inr i"
    and js: "sequence (map make_interface tds) = Inr js" and eq: "is = i # js"
    by (auto split: sum.splits)
  from Cons.IH[OF js] make_interface_keeps[OF i] eq show ?case by simp
qed

lemma py_split_nonempty: "py_split c s \<noteq> []"
  by (induction s) (auto split: list.splits)

lemma py_split_no_sep: "c \<notin> set s \<Longrightarrow> py_split c s = [s]"
  by (induction s) auto

lemma py_split_at_sep: "c \<notin> set a \<Longrightarrow> py_split c (a @ c # b) = a # py_split c b"
  by (induction a) auto

lemma py_split_pair:
  "c \<notin> set a \<Longrightarrow> c \<notin> set b \<Longrightarrow> py_split c (a @ c # b) = [a, b]"
  by (simp add: py_split_at_sep py_split_no_sep)

lemma get_match_total:
  assumes "\<And>c v. s = Sub c v \<Longrightarrow> \<exists>n. getattr v ''nicid'' = PStr n"
  shows "\<exists>r. get_match q intf s = Inr r"
proof (cases s)
  case (Sub c v)
  with assms obtain n where "getattr v ''nicid'' = PStr n" by blast
  with Sub show ?thesis by simp
next
  case (Vlan d)
  then show ?thesis
    by (cases "py_split CHR ''.'' (py_str (id_of d))") (simp_all add: py_split_nonempty)
qed

lemma get_scan_finds:
  assumes "s \<in> set subs" and "get_match q intf s = Inr True"
    and "\<forall>c v. Sub c v \<in> set subs \<longrightarrow> (\<exists>n. getattr v ''nicid'' = PStr n)"
  shows "get_scan q intf subs = Inr True"
  using assms
proof (induction subs)
  case Nil
  then show ?case by simp
next
  case (Cons x xs)
  have "\<exists>r. get_match q intf x = Inr r"
    by (rule get_match_total) (use Cons.prems(3) in auto)
  then obtain r where r: "get_match q intf x = Inr r" by blast
  show ?case
  proof (cases r)
    case True
    with r show ?thesis by simp
  next
    case False
    with r Cons.prems(1,2) have mem: "s \<in> set xs" by auto
    from Cons.prems(3)
    have rest: "\<forall>c v. Sub c v \<in> set xs \<longrightarrow> (\<exists>n. getattr v ''nicid'' = PStr n)" by auto
    from Cons.IH[OF mem Cons.prems(2) rest] r False show ?thesis by simp
  qed
qed

lemma get_from_skips:
  assumes "\<And>j. j \<in> set pre \<Longrightarrow> get_here q j = Inr False" and "get_here q i = Inr True"
  shows "get_from q (pre @ i # post) = Inr i"
  using assms by (induction pre) auto

lemma inline_matches:
  assumes nic: "getattr v ''nicid'' = PStr (a @ ''-'' @ b)"
    and a: "CHR ''-'' \<notin> set a" and b: "CHR ''-'' \<notin> set b"
  shows "py_str q = a \<or> py_str q = b \<or> py_str q = a @ ''-'' @ b \<Longrightarrow>
         get_match q intf (Sub c v) = Inr True"
  using nic a b by (auto simp: py_split_pair)

lemma get_here_nonempty: "get_here q i = Inr True \<Longrightarrow> data i \<noteq> empty_dict"
  by (auto simp: get_here_def sub_interfaces_def empty_dict_def id_of_def
           split: sum.splits if_splits)

lemma get_from_nonempty: "get_from q is = Inr i \<Longrightarrow> data i \<noteq> empty_dict"
proof (induction "is")
  case Nil
  then show ?case by simp
next
  case (Cons j js)
  then show ?case
    by (auto split: sum.splits if_splits dest: get_here_nonempty)
qed

lemma lookup_nonempty: "lookup e q = Inr i \<Longrightarrow> data i \<noteq> empty_dict"
  by (auto simp: lookup_def get_def split: sum.splits dest: get_from_nonempty)

lemmas ex_engine_defs = ex_engine_def ex_loaded_def ex_single_def ex_inline_def ex_single_data_def
  ex_inline_data_def ex_link_def

lemmas modifier_defs = byEngine_def make_interface_def extract_sub_interface_def default_name_def
  href_from_link_def modifier_data_def get_def get_here_def sub_interfaces_def id_of_def lookup_def
  isinstance_def getattr_def str_int_def str_nat.simps digit_def

lemma byEngine_ex: "byEngine (ex_engine n) = Inr (ex_loaded n)"
  by (simp add: ex_engine_defs modifier_defs)


section \<open>C1: the sweep of \<^verbatim>\<open>set_unset\<close>\<close>

lemma set_unset_sub_None:
  "set_unset_sub inn iid attr PNone c v =
     Inr (if getattr v attr = PNone then v
          else setattr v attr (PBool (getattr v ''nicid'' = PStr (py_str iid))))"
  by (simp add: set_unset_sub_def)

text \<open>
  C1 (as amended). Whenever \<^verbatim>\<open>sub_interfaces()\<close> raises for no interface of the engine,
  \<^verbatim>\<open>set_unset(interface_id, attribute)\<close> without an address returns, keeps the engine
  and the number of interfaces, and for every interface the fragments handed out by
  \<^verbatim>\<open>sub_interfaces()\<close> afterwards are those handed out before, where each fragment
  whose attribute is not \<^verbatim>\<open>None\<close> now has the attribute equal to
  (\<^verbatim>\<open>nicid == str(interface_id)\<close>), and a fragment whose attribute is \<^verbatim>\<open>None\<close>
  and every VLAN without address is as before. So every fragment that shares the nicid
  ends with \<^verbatim>\<open>True\<close>, not exactly one.
\<close>

theorem set_unset_sweeps_by_nicid:
  assumes ok: "\<forall>i\<in>set (ifaces m). \<exists>subs. sub_interfaces i = Inr subs"
  shows "\<exists>m'. set_unset inn interface_id attribute PNone m = Inr m' \<and>
           engine m' = engine m \<and>
           length (ifaces m') = length (ifaces m) \<and>
           (\<forall>k < length (ifaces m). \<exists>subs.
              sub_interfaces (ifaces m ! k) = Inr subs \<and>
              sub_interfaces (ifaces m' ! k) =
                Inr (map (on_sub (\<lambda>c v.
                       if getattr v attribute = PNone then v
                       else setattr v attribute
                              (PBool (getattr v ''nicid'' = PStr (py_str interface_id))))) subs))"
proof -
  let ?h = "\<lambda>(c::subif_class) v.
              if getattr v attribute = PNone then v
              else setattr v attribute (PBool (getattr v ''nicid'' = PStr (py_str interface_id)))"
  let ?step = "sweep_interface (set_unset_sub inn interface_id attribute PNone) skip_vlan"
  let ?new = "\<lambda>i. i\<lparr>data := swept_data ?h (data i)\<rparr>"
  have step: "?step i = Inr (?new i)" if "i \<in> set (ifaces m)" for i
  proof -
    from ok that obtain subs where subs: "sub_interfaces i = Inr subs" by blast
    show ?thesis
      by (rule sweep_interface_pure[where h = ?h, OF _ _ subs])
         (simp_all add: set_unset_sub_None skip_vlan_def)
  qed
  have seq: "sequence (map ?step (ifaces m)) = Inr (map ?new (ifaces m))"
    by (rule sequence_map_Inr) (rule step)
  have res: "set_unset inn interface_id attribute PNone m = Inr (m\<lparr>ifaces := map ?new (ifaces m)\<rparr>)"
    unfolding set_unset_def seq by simp
  have each: "\<exists>subs. sub_interfaces (ifaces m ! k) = Inr subs \<and>
                sub_interfaces (map ?new (ifaces m) ! k) = Inr (map (on_sub ?h) subs)"
    if "k < length (ifaces m)" for k
  proof -
    from that have "ifaces m ! k \<in> set (ifaces m)" by simp
    with ok obtain subs where subs: "sub_interfaces (ifaces m ! k) = Inr subs" by blast
    from sub_interfaces_swept[OF subs, of ?h] subs that show ?thesis by simp
  qed
  show ?thesis
    unfolding res using each by simp
qed

text \<open>
  C1 as stated fails on a cluster: interface 0 has a node-dedicated address per node, both
  with nicid \<^verbatim>\<open>"0"\<close>, and after \<^verbatim>\<open>set_unset(0, 'primary_mgt')\<close> both hold the flag.
\<close>

theorem set_unset_counterexample:
  "set_unset no_address (PInt 0) ''primary_mgt'' PNone (ex_cluster False) = Inr (ex_cluster True) \<and>
   ifaces (ex_cluster True) = [ex_cluster_if0 True] \<and>
   sub_interfaces (ex_cluster_if0 True) =
     Inr [Sub NodeInterface (ex_ndi ''0'' 1 True), Sub NodeInterface (ex_ndi ''0'' 2 True)] \<and>
   getattr (ex_ndi ''0'' 1 True) ''primary_mgt'' = PBool True \<and>
   getattr (ex_ndi ''0'' 2 True) ''primary_mgt'' = PBool True"
  by (simp add: ex_defs eval_defs)

theorem set_unset_sweeps_by_nicid_witness:
  "\<exists>m'. set_unset no_address (PInt 0) ''primary_mgt'' PNone (ex_cluster False) = Inr m' \<and>
     engine m' = engine (ex_cluster False) \<and>
     length (ifaces m') = length (ifaces (ex_cluster False)) \<and>
     (\<forall>k < length (ifaces (ex_cluster False)). \<exists>subs.
        sub_interfaces (ifaces (ex_cluster False) ! k) = Inr subs \<and>
        sub_interfaces (ifaces m' ! k) =
          Inr (map (on_sub (\<lambda>c v.
                 if getattr v ''primary_mgt'' = PNone then v
                 else setattr v ''primary_mgt''
                        (PBool (getattr v ''nicid'' = PStr (py_str (PInt 0)))))) subs))"
  by (rule set_unset_sweeps_by_nicid) (simp add: ex_defs sub_interfaces_def)

section \<open>C2: the VLAN ids of an inline pair\<close>

text \<open>
  C2 as stated has the variants the wrong way round: with two VLAN ids 10 and 20 on the
  pair 2-3, \<^verbatim>\<open>InlineIPSInterface\<close> gives the nic id \<^verbatim>\<open>"2.10-3.10"\<close> and
  \<^verbatim>\<open>InlineInterface\<close> gives \<^verbatim>\<open>"2.10-3.20"\<close>.
\<close>

theorem add_l2_inline_counterexample:
  "map_sum id vlan_nicids
     (add_l2_inline spec_helpers (PStr ''2-3'') (PStr ''eth'') (PStr ''10'') (PStr ''20'') PNone PNone
        InlineIPSInterface [] (ex_builder ''2'')) = Inr [PStr ''2.10-3.10''] \<and>
   map_sum id vlan_nicids
     (add_l2_inline spec_helpers (PStr ''2-3'') (PStr ''eth'') (PStr ''10'') (PStr ''20'') PNone PNone
        InlineInterface [] (ex_builder ''2'')) = Inr [PStr ''2.10-3.20'']"
  by (simp add: ex_builder_defs builder_defs vlan_nicids_def)

text \<open>
  C2 (as amended). \<^verbatim>\<open>add_l2_inline\<close> replaces \<^verbatim>\<open>vlan_id2\<close> by \<^verbatim>\<open>vlan_id\<close> whenever
  \<^verbatim>\<open>if_type\<close> is not \<^verbatim>\<open>InlineInterface\<close>, whatever the collaborators do: the result
  does not depend on the \<^verbatim>\<open>vlan_id2\<close> of the caller. With the pair 2-3 and the VLAN ids
  10 and 20, \<^verbatim>\<open>InlineIPSInterface\<close> and \<^verbatim>\<open>InlineL2FWInterface\<close> give the nic id
  \<^verbatim>\<open>"2.10-3.10"\<close>, and \<^verbatim>\<open>InlineInterface\<close> keeps both ids: \<^verbatim>\<open>"2.10-3.20"\<close>.
\<close>

theorem add_l2_inline_shared_vlan:
  "(if_type \<noteq> InlineInterface \<longrightarrow>
      add_l2_inline H interface_id logical_interface_ref vlan_id vlan_id2 z1 z2 if_type kw b
      = add_l2_inline H interface_id logical_interface_ref vlan_id vlan_id z1 z2 if_type kw b) \<and>
   map_sum id vlan_nicids
     (add_l2_inline spec_helpers (PStr ''2-3'') (PStr ''eth'') (PStr ''10'') (PStr ''20'') PNone PNone
        InlineIPSInterface [] (ex_builder ''2'')) = Inr [PStr ''2.10-3.10''] \<and>
   map_sum id vlan_nicids
     (add_l2_inline spec_helpers (PStr ''2-3'') (PStr ''eth'') (PStr ''10'') (PStr ''20'') PNone PNone
        InlineL2FWInterface [] (ex_builder ''2'')) = Inr [PStr ''2.10-3.10''] \<and>
   map_sum id vlan_nicids
     (add_l2_inline spec_helpers (PStr ''2-3'') (PStr ''eth'') (PStr ''10'') (PStr ''20'') PNone PNone
        InlineInterface [] (ex_builder ''2'')) = Inr [PStr ''2.10-3.20'']"
proof (intro conjI impI)
  assume "if_type \<noteq> InlineInterface"
  then have "l2_inline_vlan H interface_id r vlan_id vlan_id2 z1 z2 if_type x
             = l2_inline_vlan H interface_id r vlan_id vlan_id z1 z2 if_type x" for r x
    by (simp add: l2_inline_vlan_def Let_def)
  then show "add_l2_inline H interface_id logical_interface_ref vlan_id vlan_id2 z1 z2 if_type kw b
      = add_l2_inline H interface_id logical_interface_ref vlan_id vlan_id z1 z2 if_type kw b"
    by (simp add: add_l2_inline_def Let_def split: sum.splits)
qed (simp_all add: ex_builder_defs builder_defs vlan_nicids_def)

theorem add_l2_inline_shared_vlan_witness:
  "add_l2_inline spec_helpers (PStr ''2-3'') (PStr ''eth'') (PStr ''10'') (PStr ''20'') PNone PNone
     InlineIPSInterface [] (ex_builder ''2'')
   = add_l2_inline spec_helpers (PStr ''2-3'') (PStr ''eth'') (PStr ''10'') (PStr ''10'') PNone PNone
       InlineIPSInterface [] (ex_builder ''2'')"
proof -
  have h: "InlineIPSInterface \<noteq> InlineInterface" by simp
  from add_l2_inline_shared_vlan[where if_type = InlineIPSInterface, THEN conjunct1, rule_format, OF h]
  show ?thesis .
qed

section \<open>C3: \<^verbatim>\<open>set_auth_request\<close>\<close>

lemmas ex_auth_defs = ex_auth_def ex_auth_if0_def ex_auth_if1_def ex_addr_def








section \<open>C4: what \<^verbatim>\<open>is_mgmt\<close> sets\<close>





section \<open>C5: \<^verbatim>\<open>byEngine\<close> after \<^verbatim>\<open>data\<close>\<close>

text \<open>
  C5. For every tree \<open>m\<close>, the property \<^verbatim>\<open>data\<close> writes the in-memory interface list
  into the engine snapshot, one entry \<^verbatim>\<open>{typeof: data}\<close> per interface in order,
  and leaves the rest of the snapshot as it is. Whenever
  \<^verbatim>\<open>byEngine\<close> returns on what was written, the tree it gives has that snapshot as its
  engine and the same type tags and the same data, interface by interface. It does return,
  and gives the tree \<open>m\<close> itself on the engine as written, for every tree whose interfaces
  have the name and href that \<^verbatim>\<open>byEngine\<close> makes from their data; every tree loaded by
  \<^verbatim>\<open>byEngine\<close> is such a tree. Writing the reloaded tree back changes nothing any more.
\<close>

theorem byEngine_data_roundtrip:
  "(byEngine (modifier_data m) = Inr m' \<longrightarrow>
      engine m' = modifier_data m \<and>
      map typeof (ifaces m') = map typeof (ifaces m) \<and>
      map data (ifaces m') = map data (ifaces m)) \<and>
   ((\<forall>i\<in>set (ifaces m). make_interface (typeof i, data i) = Inr i) \<longrightarrow>
      byEngine (modifier_data m) = Inr (m\<lparr>engine := modifier_data m\<rparr>)) \<and>
   (byEngine e = Inr m0 \<longrightarrow> (\<forall>i\<in>set (ifaces m0). make_interface (typeof i, data i) = Inr i)) \<and>
   physicalInterfaces (modifier_data m) = Some (map (\<lambda>i. [(typeof i, data i)]) (ifaces m)) \<and>
   etype (modifier_data m) = etype (engine m) \<and>
   modifier_data (m\<lparr>engine := modifier_data m\<rparr>) = modifier_data m"
proof (intro conjI impI)
  assume l: "byEngine (modifier_data m) = Inr m'"
  then have seq: "sequence (map make_interface (map (\<lambda>i. (typeof i, data i)) (ifaces m))) = Inr (ifaces m')"
    and eng: "engine m' = modifier_data m"
    by (auto simp: byEngine_def modifier_data_def concat_singletons split: sum.splits)
  from sequence_make_interface_keeps[OF seq]
  show "engine m' = modifier_data m" and "map typeof (ifaces m') = map typeof (ifaces m)"
    and "map data (ifaces m') = map data (ifaces m)"
    using eng by (simp_all add: comp_def)
next
  assume fixed: "\<forall>i\<in>set (ifaces m). make_interface (typeof i, data i) = Inr i"
  have "sequence (map (\<lambda>i. make_interface (typeof i, data i)) (ifaces m))
          = Inr (map (\<lambda>i. i) (ifaces m))"
    by (rule sequence_map_Inr) (use fixed in blast)
  then have "sequence (map make_interface (concat (map (\<lambda>i. [(typeof i, data i)]) (ifaces m))))
               = Inr (ifaces m)"
    by (simp add: concat_singletons comp_def)
  then show "byEngine (modifier_data m) = Inr (m\<lparr>engine := modifier_data m\<rparr>)"
    by (simp add: byEngine_def modifier_data_def)
next
  assume "byEngine e = Inr m0"
  then show "\<forall>i\<in>set (ifaces m0). make_interface (typeof i, data i) = Inr i"
    by (blast intro: byEngine_interfaces_fixed)
next
  show "physicalInterfaces (modifier_data m) = Some (map (\<lambda>i. [(typeof i, data i)]) (ifaces m))"
    by (simp add: modifier_data_def)
  show "etype (modifier_data m) = etype (engine m)"
    by (simp add: modifier_data_def)
  show "modifier_data (m\<lparr>engine := modifier_data m\<rparr>) = modifier_data m"
    by (simp add: modifier_data_def)
qed

theorem byEngine_data_roundtrip_witness:
  "byEngine (ex_mgmt_engine False) = Inr (ex_mgmt_tree False False) \<and>
   set_unset no_address (PInt 0) ''primary_mgt'' PNone (ex_mgmt_tree False False)
     = Inr (ex_mgmt_tree True False) \<and>
   modifier_data (ex_mgmt_tree True False) = ex_mgmt_engine True \<and>
   byEngine (modifier_data (ex_mgmt_tree True False)) = Inr (ex_mgmt_tree True True) \<and>
   map data (ifaces (ex_mgmt_tree True True)) = [ex_mgmt_data True, ex_inline_data] \<and>
   make_interface (typeof (ex_mgmt False), data (ex_mgmt False)) = Inr (ex_mgmt False)"
proof -
  have load: "byEngine (ex_mgmt_engine False) = Inr (ex_mgmt_tree False False)"
    by (simp add: ex_mgmt_defs modifier_defs)
  have sweep: "set_unset no_address (PInt 0) ''primary_mgt'' PNone (ex_mgmt_tree False False)
     = Inr (ex_mgmt_tree True False)"
    by (simp add: ex_mgmt_defs eval_defs)
  have ser: "modifier_data (ex_mgmt_tree True False) = ex_mgmt_engine True"
    by (simp add: ex_mgmt_defs modifier_data_def)
  have upd: "(ex_mgmt_tree True False)\<lparr>engine := modifier_data (ex_mgmt_tree True False)\<rparr>
              = ex_mgmt_tree True True"
    by (simp add: ex_mgmt_defs modifier_data_def)
  have fixed: "\<forall>i\<in>set (ifaces (ex_mgmt_tree True False)). make_interface (typeof i, data i) = Inr i"
    by (simp add: ex_mgmt_defs modifier_defs)
  note t = byEngine_data_roundtrip[where m = "ex_mgmt_tree True False"
      and m' = "ex_mgmt_tree True True" and e = "ex_mgmt_engine False" and ?m0.0 = "ex_mgmt_tree False False"]
  from t[THEN conjunct2, THEN conjunct1, THEN mp, OF fixed] upd
  have reload: "byEngine (modifier_data (ex_mgmt_tree True False)) = Inr (ex_mgmt_tree True True)"
    by simp
  from t[THEN conjunct1, THEN mp, OF reload]
  have same: "map data (ifaces (ex_mgmt_tree True True)) = map data (ifaces (ex_mgmt_tree True False))"
    by simp
  from t[THEN conjunct2, THEN conjunct2, THEN conjunct1, THEN mp, OF load]
  have "make_interface (typeof (ex_mgmt False), data (ex_mgmt False)) = Inr (ex_mgmt False)"
    by (simp add: ex_mgmt_tree_def)
  with load sweep ser reload same show ?thesis
    by (simp add: ex_mgmt_tree_def ex_mgmt_def ex_inline_def)
qed

section \<open>C6: \<^verbatim>\<open>get\<close> on an inline pair\<close>

text \<open>
  C6 as stated fails when an interface earlier in the engine's list answers to one side of
  the pair: with a layer 3 interface 3 before the inline pair 2-3, \<^verbatim>\<open>get(3)\<close> is the
  layer 3 interface and \<^verbatim>\<open>get("2-3")\<close> the inline pair.
\<close>

theorem get_inline_counterexample:
  "get (ex_loaded ''3'') (PInt 3) = Inr (ex_single ''3'') \<and>
   get (ex_loaded ''3'') (PStr ''2-3'') = Inr ex_inline \<and>
   sub_interfaces ex_inline =
     Inr [Sub InlineInterface [(''nicid'', PStr ''2-3''), (''logical_interface_ref'', PStr ''eth'')]] \<and>
   data (ex_single ''3'') \<noteq> data ex_inline"
  by (simp add: ex_engine_defs modifier_defs)

text \<open>
  C6 (as amended). Let interface \<open>i\<close> of the engine have, among the sub-interfaces that
  \<^verbatim>\<open>sub_interfaces()\<close> hands out (all with a string nicid), one with the nicid
  \<^verbatim>\<open>"a-b"\<close>, where \<open>a\<close> and \<open>b\<close> contain no \<^verbatim>\<open>-\<close>. If for every interface before
  \<open>i\<close> in the list the scan of \<^verbatim>\<open>get\<close> neither matches nor raises on the three ids,
  then \<^verbatim>\<open>get(a)\<close>, \<^verbatim>\<open>get(b)\<close> and \<^verbatim>\<open>get("a-b")\<close> all return \<open>i\<close>. The ids may
  be passed as strings or as integers.
\<close>

theorem get_inline_pair:
  assumes pos: "ifaces m = pre @ i # post"
    and subs: "sub_interfaces i = Inr subs"
    and inl: "Sub c v \<in> set subs"
    and nic: "getattr v ''nicid'' = PStr (a @ ''-'' @ b)"
    and a: "CHR ''-'' \<notin> set a" and b: "CHR ''-'' \<notin> set b"
    and strs: "\<forall>c' v'. Sub c' v' \<in> set subs \<longrightarrow> (\<exists>n. getattr v' ''nicid'' = PStr n)"
    and qa: "py_str qa = a" and qb: "py_str qb = b" and qab: "py_str qab = a @ ''-'' @ b"
    and earlier: "\<And>j q. j \<in> set pre \<Longrightarrow> q \<in> {qa, qb, qab} \<Longrightarrow> get_here q j = Inr False"
  shows "get m qa = Inr i \<and> get m qb = Inr i \<and> get m qab = Inr i"
proof -
  have here: "get_here q i = Inr True" if "q \<in> {qa, qb, qab}" for q
  proof -
    from that qa qb qab have "py_str q = a \<or> py_str q = b \<or> py_str q = a @ ''-'' @ b" by auto
    from inline_matches[OF nic a b this] have "get_match q i (Sub c v) = Inr True" .
    from get_scan_finds[OF inl this strs] have "get_scan q i subs = Inr True" .
    with subs inl show ?thesis by (auto simp: get_here_def)
  qed
  have "get m q = Inr i" if "q \<in> {qa, qb, qab}" for q
    unfolding get_def pos by (rule get_from_skips) (use earlier that here in auto)
  then show ?thesis by simp
qed


theorem get_inline_pair_witness:
  "get (ex_loaded ''0'') (PInt 2) = Inr ex_inline \<and>
   get (ex_loaded ''0'') (PInt 3) = Inr ex_inline \<and>
   get (ex_loaded ''0'') (PStr ''2-3'') = Inr ex_inline"
proof (rule get_inline_pair[where pre = "[ex_single ''0'']" and post = "[]"
         and c = InlineInterface and a = "''2''" and b = "''3''"
         and v = "[(''nicid'', PStr ''2-3''), (''logical_interface_ref'', PStr ''eth'')]"
         and subs = "[Sub InlineInterface [(''nicid'', PStr ''2-3''), (''logical_interface_ref'', PStr ''eth'')]]"])
  fix j q
  assume "j \<in> set [ex_single ''0'']" and "q \<in> {PInt 2, PInt 3, PStr ''2-3''}"
  then show "get_here q j = Inr False"
    by (auto simp: ex_engine_defs modifier_defs)
qed (simp_all add: ex_engine_defs modifier_defs)


section \<open>C7: the two outcomes of \<^verbatim>\<open>getBuilder\<close>\<close>

text \<open>
  C7. When the lookup fails with \<^verbatim>\<open>EngineCommandFailed\<close> (not found), \<^verbatim>\<open>getBuilder\<close>
  returns a fresh builder that holds the requested id, an empty \<^verbatim>\<open>interfaces\<close> list
  and, unless the instance is a tunnel interface, an empty \<^verbatim>\<open>vlanInterfaces\<close> list and
  no zone, together with \<^verbatim>\<open>None\<close>. When the lookup succeeds it returns the builder made
  of the whole \<^verbatim>\<open>data\<close> of the interface found, together with that interface. Whenever
  \<^verbatim>\<open>getBuilder\<close> returns, it is in one of these two ways.
\<close>

theorem getBuilder_two_outcomes:
  "(lookup e interface_id = Inl (EngineCommandFailed msg) \<longrightarrow>
      getBuilder instance_class e interface_id =
        Inr (if instance_class = TunnelInterface
             then IfData (Some interface_id) None None None (Some []) None []
             else IfData (Some interface_id) None None (Some PNone) (Some []) (Some []) [],
             None)) \<and>
   (lookup e interface_id = Inr i \<longrightarrow>
      getBuilder instance_class e interface_id = Inr (data i, Some i)) \<and>
   (getBuilder instance_class e interface_id = Inr r \<longrightarrow>
      (\<exists>msg. lookup e interface_id = Inl (EngineCommandFailed msg) \<and> snd r = None \<and>
             d_interface_id (fst r) = Some interface_id \<and> d_interfaces (fst r) = Some []) \<or>
      (\<exists>i. lookup e interface_id = Inr i \<and> r = (data i, Some i)))"
proof (intro conjI impI)
  assume "lookup e interface_id = Inl (EngineCommandFailed msg)"
  then show "getBuilder instance_class e interface_id =
        Inr (if instance_class = TunnelInterface
             then IfData (Some interface_id) None None None (Some []) None []
             else IfData (Some interface_id) None None (Some PNone) (Some []) (Some []) [],
             None)"
    by (simp add: getBuilder_def InterfaceBuilder_def)
next
  assume l: "lookup e interface_id = Inr i"
  from lookup_nonempty[OF l] l show "getBuilder instance_class e interface_id = Inr (data i, Some i)"
    by (simp add: getBuilder_def InterfaceBuilder_def)
next
  assume g: "getBuilder instance_class e interface_id = Inr r"
  show "(\<exists>msg. lookup e interface_id = Inl (EngineCommandFailed msg) \<and> snd r = None \<and>
             d_interface_id (fst r) = Some interface_id \<and> d_interfaces (fst r) = Some []) \<or>
      (\<exists>i. lookup e interface_id = Inr i \<and> r = (data i, Some i))"
  proof (cases "lookup e interface_id")
    case (Inr i)
    from lookup_nonempty[OF Inr] Inr g show ?thesis
      by (simp add: getBuilder_def InterfaceBuilder_def)
  next
    case (Inl x)
    with g show ?thesis
      by (cases x) (auto simp: getBuilder_def InterfaceBuilder_def)
  qed
qed


theorem getBuilder_two_outcomes_witness:
  "getBuilder PhysicalInterface (ex_engine ''0'') (PInt 7)
     = Inr (IfData (Some (PInt 7)) None None (Some PNone) (Some []) (Some []) [], None) \<and>
   getBuilder PhysicalInterface (ex_engine ''0'') (PInt 3) = Inr (ex_inline_data, Some ex_inline)"
proof -
  have h1: "lookup (ex_engine ''0'') (PInt 7)
            = Inl (EngineCommandFailed ''Interface id 7 was not found on this engine.'')"
    by (simp add: ex_engine_defs modifier_defs)
  have h2: "lookup (ex_engine ''0'') (PInt 3) = Inr ex_inline"
    by (simp add: ex_engine_defs modifier_defs)
  note t = getBuilder_two_outcomes[where e = "ex_engine ''0''" and instance_class = PhysicalInterface]
  from t[where interface_id = "PInt 7", THEN conjunct1, rule_format, OF h1]
       t[where interface_id = "PInt 3" and msg = "[]", THEN conjunct2, THEN conjunct1, rule_format, OF h2]
  show ?thesis by (simp add: ex_inline_def)
qed

section \<open>C8: a cluster address change on an interface with VLANs\<close>

text \<open>
  C8. On an interface that has VLANs, \<^verbatim>\<open>change_cluster_ipaddress\<close> called without a
  \<^verbatim>\<open>vlan_id\<close> (or with one that is false in a condition) raises
  \<^verbatim>\<open>UpdateElementFailed\<close> and leaves the interface, the server and the cache exactly as
  they were, whatever the collaborators would do: no request is made.
\<close>

theorem change_cluster_ipaddress_needs_vlan:
  assumes "has_vlan i" and "\<not> truthy vlan_id"
  shows "change_cluster_ipaddress N cvi cvi_network_value nodes vlan_id (i, w) =
           (Inl (UpdateElementFailed
              (''Interface with VLANs configured require a CVI be specified to change '' @
               ''the correct VLAN address.'')), i, w)"
  using assms by (simp add: change_cluster_ipaddress_def)

theorem change_cluster_ipaddress_needs_vlan_witness:
  "change_cluster_ipaddress ex_net (PStr ''10.0.0.254'') PNone [] PNone (ex_vlan_interface, ex_world) =
     (Inl (UpdateElementFailed
        (''Interface with VLANs configured require a CVI be specified to change '' @
         ''the correct VLAN address.'')), ex_vlan_interface, ex_world)"
  by (rule change_cluster_ipaddress_needs_vlan)
     (simp_all add: has_vlan_def ex_vlan_interface_def ex_vlan_builder_def ex_builder_defs)


text \<open>For comparison, on an interface without VLANs the same call changes the CVI, saves
  and prunes the routes: two requests, and the cache is dropped.\<close>

lemma change_cluster_ipaddress_saves:
  "change_cluster_ipaddress ex_net (PStr ''10.0.0.200'') PNone [] PNone (ex_auth_if0 True, ex_world) =
     (Inr (),
      ex_auth_if0 True\<lparr>data := IfData (Some (PStr ''0'')) None None None
               (Some [[(ClusterVirtualInterface, ex_addr ''0'' ''10.0.0.200'' True)],
                      [(NodeInterface, ex_addr ''0'' ''10.0.0.1'' False)]])
               (Some []) []\<rparr>,
      \<lparr>server = 2, cache = None, del_cache_calls = 1\<rparr>)"
  by (simp add: change_cluster_ipaddress_def has_vlan_def ex_auth_defs sub_interfaces_def
        selected_def saves_def change_sub_def isinstance_def save_def ex_net_def
        ex_request_def ex_world_def del_cache_def first_network_def setattr_def getattr_def Let_def)

section \<open>C9: \<^verbatim>\<open>remove_vlan\<close> of a VLAN that is not there\<close>

text \<open>
  C9. For a builder that has an \<^verbatim>\<open>interface_id\<close> and a \<^verbatim>\<open>vlanInterfaces\<close> list in which
  no entry has the \<^verbatim>\<open>interface_id\<close> \<^verbatim>\<open>"{interface_id}.{vlan_id}"\<close>,
  \<^verbatim>\<open>remove_vlan(vlan_id)\<close> raises nothing and returns the builder as it was, the list and
  every other attribute included.
\<close>

theorem remove_vlan_absent_noop:
  assumes "d_interface_id b = Some iid" and "d_vlanInterfaces b = Some vls"
    and "\<forall>vlan\<in>set vls. id_of vlan \<noteq> PStr (py_str iid @ ''.'' @ py_str vlan_id)"
  shows "remove_vlan vlan_id b = Inr b"
  using assms by (cases b) (simp add: remove_vlan_def)

theorem remove_vlan_absent_noop_witness:
  "remove_vlan (PInt 5) ex_vlan_builder = Inr ex_vlan_builder"
  by (rule remove_vlan_absent_noop[where iid = "PStr ''1''"
        and vls = "[vlan_create spec_helpers (PInt 1) (PInt 100) PNone PNone PNone None]"])
     (simp_all add: ex_builder_defs builder_defs)

text \<open>For comparison, a VLAN that is there is removed.\<close>

lemma remove_vlan_present:
  "remove_vlan (PInt 100) ex_vlan_builder = Inr (ex_builder ''1'')"
  by (simp add: ex_builder_defs builder_defs)


section \<open>C10: \<^verbatim>\<open>dispatch\<close> and the cache\<close>



end
